theory Spec2Isabelle
  imports Complex_Main
begin

section \<open>Data model\<close>

text \<open>
  A table cell. Prices are exact rationals (the source holds them as binary floating
  point; on the inputs evaluated below the floating-point computation yields the same
  records). \<open>NA\<close> stands for every missing-value marker of the table library
  (None, NaN, NaT). A date is year, month, day.
\<close>

datatype cell = NA | Str string | Num rat | Date nat nat nat

datatype dtype = Object | Number | Datetime

datatype error = KeyError string | RuntimeError string | ValueError string | AttributeError string

type_synonym row = "string \<Rightarrow> cell"

text \<open>
  A table: the ordered column labels, the type tag of each column, and the rows, each with
  its index label. A row is read only at the labels in \<open>columns\<close>.
\<close>

record dataframe =
  columns :: "string list"
  dtypes :: "string \<Rightarrow> dtype"
  rows :: "(nat \<times> row) list"

text \<open>A parsed JSON value; an object is the list of its members as written.\<close>

datatype json =
  JNull
| JBool bool
| JNum rat
| JStr string
| JArr "json list"
| JObj "(string \<times> json) list"

text \<open>
  The table library's functions that the source calls and that are no part of the
  repository: the parse of one element by \<open>pd.to_datetime\<close> (given the whole
  column, from which the library may infer a format; \<open>None\<close> is a failed parse) and
  by \<open>pd.to_numeric\<close>, and what the constructor \<open>pd.DataFrame(data)\<close> makes
  of a JSON value that is neither null nor a list of row objects of scalars: a table, or
  the message of the exception it raises.
\<close>

record pandas =
  parse_datetime :: "cell list \<Rightarrow> cell \<Rightarrow> (nat \<times> nat \<times> nat) option"
  parse_numeric :: "cell \<Rightarrow> rat option"
  other_frame :: "json \<Rightarrow> string + dataframe"

type_synonym files = "string \<rightharpoonup> cell list list"

text \<open>What a call leaves behind: the value returned or the exception raised, and the files.\<close>

record 'a outcome =
  returned :: "error + 'a"
  files_after :: files

text \<open>
  For a function that is handed a table: also the table object of the caller as the call
  leaves it (an assignment to a column of the parameter changes the caller's object; once
  the source rebinds the parameter to a derived table, the caller's object is no longer
  touched).
\<close>

record 'a frame_outcome = "'a outcome" +
  arg_after :: dataframe

subsection \<open>Decimal text of a number\<close>

definition digit_char :: "nat \<Rightarrow> char" where
  "digit_char n = char_of (48 + n)"

function show_nat :: "nat \<Rightarrow> string" where
  "show_nat n = (if n < 10 then [digit_char n] else show_nat (n div 10) @ [digit_char (n mod 10)])"
  by pat_completeness auto
termination
  by (relation "measure id") auto

declare show_nat.simps [simp del]

subsection \<open>Tables\<close>

text \<open>\<open>pd.DataFrame()\<close>: no columns, no rows.\<close>

definition empty_frame :: dataframe where
  "empty_frame = \<lparr>columns = [], dtypes = (\<lambda>c. Object), rows = []\<rparr>"

text \<open>\<open>df.empty\<close>: some axis has length 0.\<close>

definition empty :: "dataframe \<Rightarrow> bool" where
  "empty df = (columns df = [] \<or> rows df = [])"

fun unique_first :: "'a list \<Rightarrow> 'a list \<Rightarrow> 'a list" where
  "unique_first seen [] = []"
| "unique_first seen (x # xs) =
     (if x \<in> set seen then unique_first seen xs else x # unique_first (x # seen) xs)"

definition is_num :: "cell \<Rightarrow> bool" where
  "is_num c = (case c of Num q \<Rightarrow> True | _ \<Rightarrow> False)"

definition is_num_or_na :: "cell \<Rightarrow> bool" where
  "is_num_or_na c = (case c of Num q \<Rightarrow> True | NA \<Rightarrow> True | _ \<Rightarrow> False)"

text \<open>
  The column type the constructor infers from JSON scalars: a column of numbers (with or
  without missing entries) is numeric, every other column holds objects.
\<close>

definition infer_dtype :: "cell list \<Rightarrow> dtype" where
  "infer_dtype cs = (if list_all is_num_or_na cs \<and> list_ex is_num cs then Number else Object)"

definition dict_get :: "(string \<times> cell) list \<Rightarrow> row" where
  "dict_get d c = (case map_of d c of Some v \<Rightarrow> v | None \<Rightarrow> NA)"

text \<open>
  \<open>pd.DataFrame(data)\<close> for a list of row objects: the columns are the keys in
  order of first appearance, a key that a row lacks is missing there, the index is
  \<open>0..n-1\<close>.
\<close>

definition DataFrame :: "(string \<times> cell) list list \<Rightarrow> dataframe" where
  "DataFrame data =
     \<lparr>columns = unique_first [] (concat (map (map fst) data)),
      dtypes = (\<lambda>c. infer_dtype (map (\<lambda>d. dict_get d c) data)),
      rows = zip [0..<length data] (map dict_get data)\<rparr>"

subsection \<open>Files\<close>

text \<open>
  The content of a file is its list of lines, a CSV line being the list of its fields;
  the zero-byte file has no line. \<open>df.to_csv(path, index=False)\<close> replaces the file
  at the path by the header line of the column labels followed by one line per row.
\<close>

definition csv_lines :: "dataframe \<Rightarrow> cell list list" where
  "csv_lines df = map Str (columns df) # map (\<lambda>ir. map (snd ir) (columns df)) (rows df)"

definition to_csv :: "dataframe \<Rightarrow> string \<Rightarrow> files \<Rightarrow> files" where
  "to_csv df path fs = fs(path \<mapsto> csv_lines df)"

text \<open>\<open>Path.touch()\<close>: creates a zero-byte file unless the path exists already.\<close>

definition touch :: "string \<Rightarrow> files \<Rightarrow> files" where
  "touch path fs = (case fs path of None \<Rightarrow> fs(path \<mapsto> []) | Some content \<Rightarrow> fs)"

text \<open>
  The export at the end of both the fetcher and the cleaner:
  \<^verbatim>\<open>
  df.to_csv(csv_path, index=False)
  if not df.empty:
      df.to_csv(csv_path, index=False)
  else:
      csv_path.touch()
  \<close>
\<close>

definition persist :: "dataframe \<Rightarrow> string \<Rightarrow> files \<Rightarrow> files" where
  "persist df path fs =
     (let fs1 = to_csv df path fs
      in if \<not> empty df then to_csv df path fs1 else touch path fs1)"

section \<open>fetch\_data.py\<close>

text \<open>
  The answer of the remote service to the one GET request: the status code and the body,
  parsed as JSON (\<open>None\<close> when the body is no JSON text, in which case
  \<open>response.json()\<close> raises).
\<close>

record response =
  status_code :: nat
  body :: "json option"

definition raw_csv_path :: string where
  "raw_csv_path = ''data/raw/petroleum_raw.csv''"

text \<open>
  \<open>j.get(key, default)\<close> on a parsed JSON value: only an object has the method, any
  other value raises an \<open>AttributeError\<close>; of a key written twice the parser keeps
  the last value.
\<close>

definition py_get :: "json \<Rightarrow> string \<Rightarrow> json \<Rightarrow> error + json" where
  "py_get j k dflt =
     (case j of
        JObj kvs \<Rightarrow> Inr (case map_of (rev kvs) k of Some v \<Rightarrow> v | None \<Rightarrow> dflt)
      | _ \<Rightarrow> Inl (AttributeError ''get''))"

text \<open>\<open>response.json().get("response", {}).get("data", [])\<close>\<close>

definition response_data :: "response \<Rightarrow> error + json" where
  "response_data r =
     (case body r of
        None \<Rightarrow> Inl (ValueError ''JSONDecodeError'')
      | Some j \<Rightarrow>
          (case py_get j ''response'' (JObj []) of
             Inl e \<Rightarrow> Inl e
           | Inr resp \<Rightarrow> py_get resp ''data'' (JArr [])))"

text \<open>The truth value of \<open>data\<close> in \<open>df if data else pd.DataFrame()\<close>.\<close>

definition truthy :: "json \<Rightarrow> bool" where
  "truthy j =
     (case j of
        JNull \<Rightarrow> False
      | JBool b \<Rightarrow> b
      | JNum q \<Rightarrow> q \<noteq> 0
      | JStr s \<Rightarrow> s \<noteq> []
      | JArr xs \<Rightarrow> xs \<noteq> []
      | JObj kvs \<Rightarrow> kvs \<noteq> [])"

text \<open>
  A row object of scalars (null, number or text) and the row it stands for: the keys in
  order of first appearance, each with the last value written for it.
\<close>

definition is_scalar :: "json \<Rightarrow> bool" where
  "is_scalar j = (case j of JNull \<Rightarrow> True | JNum q \<Rightarrow> True | JStr s \<Rightarrow> True | _ \<Rightarrow> False)"

definition scalar_cell :: "json \<Rightarrow> cell" where
  "scalar_cell j = (case j of JNum q \<Rightarrow> Num q | JStr s \<Rightarrow> Str s | _ \<Rightarrow> NA)"

definition is_row_object :: "json \<Rightarrow> bool" where
  "is_row_object j = (case j of JObj kvs \<Rightarrow> list_all (\<lambda>kv. is_scalar (snd kv)) kvs | _ \<Rightarrow> False)"

definition row_items :: "json \<Rightarrow> (string \<times> cell) list" where
  "row_items j =
     (case j of
        JObj kvs \<Rightarrow>
          map (\<lambda>k. (k, case map_of (rev kvs) k of Some v \<Rightarrow> scalar_cell v | None \<Rightarrow> NA))
            (unique_first [] (map fst kvs))
      | _ \<Rightarrow> [])"

text \<open>
  \<open>pd.DataFrame(data)\<close>: the empty table for null, the table of the rows for a list
  of row objects of scalars (the empty list among them); every other value is left to the
  library, an exception of which is an \<open>Inl\<close> with its message.
\<close>

definition frame_of_json :: "pandas \<Rightarrow> json \<Rightarrow> error + dataframe" where
  "frame_of_json pd data =
     (case data of
        JNull \<Rightarrow> Inr empty_frame
      | JArr js \<Rightarrow>
          (if list_all is_row_object js then Inr (DataFrame (map row_items js))
           else (case other_frame pd data of Inl msg \<Rightarrow> Inl (ValueError msg) | Inr df \<Rightarrow> Inr df))
      | _ \<Rightarrow> (case other_frame pd data of Inl msg \<Rightarrow> Inl (ValueError msg) | Inr df \<Rightarrow> Inr df))"

definition fetch_petroleum_data :: "pandas \<Rightarrow> response \<Rightarrow> files \<Rightarrow> dataframe outcome" where
  "fetch_petroleum_data pd r fs =
     (if status_code r \<noteq> 200
      then \<lparr>returned = Inl (RuntimeError (''API request failed: '' @ show_nat (status_code r))),
            files_after = fs\<rparr>
      else
        (case response_data r of
           Inl e \<Rightarrow> \<lparr>returned = Inl e, files_after = fs\<rparr>
         | Inr data \<Rightarrow>
             (case frame_of_json pd data of
                Inl e \<Rightarrow> \<lparr>returned = Inl e, files_after = fs\<rparr>
              | Inr df \<Rightarrow>
                  \<lparr>returned = Inr (if truthy data then df else empty_frame),
                   files_after = persist df raw_csv_path fs\<rparr>)))"

section \<open>clean\_data.py\<close>

subsection \<open>Column operations\<close>

definition column :: "dataframe \<Rightarrow> string \<Rightarrow> cell list" where
  "column df c = map (\<lambda>ir. snd ir c) (rows df)"

text \<open>
  \<open>df[c] = s\<close> for a series \<open>s\<close> computed row by row from \<open>df\<close>: an
  existing column is replaced in place, a new one is appended as the last column.
\<close>

definition assign :: "string \<Rightarrow> dtype \<Rightarrow> (row \<Rightarrow> cell) \<Rightarrow> dataframe \<Rightarrow> dataframe" where
  "assign c ty f df =
     \<lparr>columns = (if c \<in> set (columns df) then columns df else columns df @ [c]),
      dtypes = (dtypes df)(c := ty),
      rows = map (\<lambda>ir. (fst ir, (snd ir)(c := f (snd ir)))) (rows df)\<rparr>"

text \<open>\<open>df[mask]\<close> for a mask computed row by row: the rows keep their index labels.\<close>

definition filter_rows :: "(row \<Rightarrow> bool) \<Rightarrow> dataframe \<Rightarrow> dataframe" where
  "filter_rows p df = df\<lparr>rows := filter (\<lambda>ir. p (snd ir)) (rows df)\<rparr>"

text \<open>One element under \<open>pd.to_datetime(..., errors='coerce')\<close>.\<close>

definition datetime_cell :: "pandas \<Rightarrow> cell list \<Rightarrow> cell \<Rightarrow> cell" where
  "datetime_cell pd col x =
     (case x of
        NA \<Rightarrow> NA
      | Date y m d \<Rightarrow> Date y m d
      | _ \<Rightarrow> (case parse_datetime pd col x of None \<Rightarrow> NA | Some (y, m, d) \<Rightarrow> Date y m d))"

text \<open>One element under \<open>pd.to_numeric(..., errors='coerce')\<close>.\<close>

definition numeric_cell :: "pandas \<Rightarrow> cell \<Rightarrow> cell" where
  "numeric_cell pd x =
     (case x of
        NA \<Rightarrow> NA
      | Num q \<Rightarrow> Num q
      | _ \<Rightarrow> (case parse_numeric pd x of None \<Rightarrow> NA | Some q \<Rightarrow> Num q))"

text \<open>\<open>.dt.year.between(lo, hi)\<close>: inclusive on both sides, false where there is no date.\<close>

definition year_between :: "nat \<Rightarrow> nat \<Rightarrow> cell \<Rightarrow> bool" where
  "year_between lo hi x = (case x of Date y m d \<Rightarrow> lo \<le> y \<and> y \<le> hi | _ \<Rightarrow> False)"

text \<open>
  \<open>drop_duplicates\<close> (all columns, the first occurrence is kept, missing entries
  compare equal).
\<close>

fun drop_dups :: "string list \<Rightarrow> cell list list \<Rightarrow> (nat \<times> row) list \<Rightarrow> (nat \<times> row) list" where
  "drop_dups cols seen [] = []"
| "drop_dups cols seen (ir # irs) =
     (if map (snd ir) cols \<in> set seen then drop_dups cols seen irs
      else ir # drop_dups cols (map (snd ir) cols # seen) irs)"

definition drop_duplicates :: "dataframe \<Rightarrow> dataframe" where
  "drop_duplicates df = df\<lparr>rows := drop_dups (columns df) [] (rows df)\<rparr>"

subsection \<open>Imputation\<close>

fun numbers :: "cell list \<Rightarrow> rat list" where
  "numbers [] = []"
| "numbers (Num q # cs) = q # numbers cs"
| "numbers (c # cs) = numbers cs"

text \<open>\<open>Series.median()\<close>: over the entries that are present; none for an empty series.\<close>

definition median :: "rat list \<Rightarrow> rat option" where
  "median xs =
     (let s = sort xs; n = length s
      in if n = 0 then None
         else if odd n then Some (s ! (n div 2))
         else Some ((s ! (n div 2 - 1) + s ! (n div 2)) / 2))"

text \<open>\<open>Series.fillna(v)\<close> assigned back to the column.\<close>

definition fillna :: "string \<Rightarrow> cell \<Rightarrow> dataframe \<Rightarrow> dataframe" where
  "fillna c v df =
     df\<lparr>rows := map (\<lambda>ir. (fst ir, if snd ir c = NA then (snd ir)(c := v) else snd ir)) (rows df)\<rparr>"

definition numeric_cols :: "dataframe \<Rightarrow> string list" where
  "numeric_cols df = filter (\<lambda>c. dtypes df c = Number) (columns df)"

definition other_cols :: "dataframe \<Rightarrow> string list" where
  "other_cols df = filter (\<lambda>c. dtypes df c \<noteq> Number) (columns df)"

text \<open>
  \<open>df[numeric_cols] = df[numeric_cols].fillna(df[numeric_cols].median())\<close>: a column
  with no number at all has no median and stays as it is.
\<close>

definition fill_numeric :: "dataframe \<Rightarrow> dataframe" where
  "fill_numeric df =
     fold (\<lambda>c d. case median (numbers (column df c)) of None \<Rightarrow> d | Some m \<Rightarrow> fillna c (Num m) d)
       (numeric_cols df) df"

fun str_less :: "string \<Rightarrow> string \<Rightarrow> bool" where
  "str_less [] [] = False"
| "str_less [] (b # bs) = True"
| "str_less (a # as) [] = False"
| "str_less (a # as) (b # bs) =
     (if a = b then str_less as bs else (of_char a :: nat) < of_char b)"

text \<open>
  The order in which \<open>Series.mode()\<close> sorts the most frequent values. Values of
  different kinds are not ordered (the library leaves such modes in order of appearance).
\<close>

fun cell_less :: "cell \<Rightarrow> cell \<Rightarrow> bool" where
  "cell_less (Str a) (Str b) = str_less a b"
| "cell_less (Num a) (Num b) = (a < b)"
| "cell_less (Date y m d) (Date y' m' d') =
     (y < y' \<or> (y = y' \<and> (m < m' \<or> (m = m' \<and> d < d'))))"
| "cell_less a b = False"

fun least_cell :: "cell \<Rightarrow> cell list \<Rightarrow> cell" where
  "least_cell m [] = m"
| "least_cell m (c # cs) = least_cell (if cell_less c m then c else m) cs"

text \<open>
  \<open>Series.mode()[0]\<close>: the first of the most frequent present values; \<open>None\<close>
  when the series has no present value (the subscript then raises).
\<close>

definition mode0 :: "cell list \<Rightarrow> cell option" where
  "mode0 cs =
     (let vs = filter (\<lambda>c. c \<noteq> NA) cs;
          best = fold max (map (count_list vs) vs) 0
      in case filter (\<lambda>v. count_list vs v = best) vs of
           [] \<Rightarrow> None
         | v # rest \<Rightarrow> Some (least_cell v rest))"

text \<open>
  \<open>for col in df.select_dtypes(exclude=[np.number]).columns:
  df[col] = df[col].fillna(df[col].mode()[0])\<close>
\<close>

fun fill_objects :: "string list \<Rightarrow> dataframe \<Rightarrow> error + dataframe" where
  "fill_objects [] df = Inr df"
| "fill_objects (c # cs) df =
     (case mode0 (column df c) of
        None \<Rightarrow> Inl (KeyError ''0'')
      | Some v \<Rightarrow> fill_objects cs (fillna c v df))"

subsection \<open>Text columns\<close>

definition is_space :: "char \<Rightarrow> bool" where
  "is_space c = (let n = (of_char c :: nat) in (9 \<le> n \<and> n \<le> 13) \<or> (28 \<le> n \<and> n \<le> 32))"

definition is_lower :: "char \<Rightarrow> bool" where
  "is_lower c = (let n = (of_char c :: nat) in 97 \<le> n \<and> n \<le> 122)"

definition is_upper :: "char \<Rightarrow> bool" where
  "is_upper c = (let n = (of_char c :: nat) in 65 \<le> n \<and> n \<le> 90)"

definition to_upper :: "char \<Rightarrow> char" where
  "to_upper c = char_of ((of_char c :: nat) - 32)"

definition to_lower :: "char \<Rightarrow> char" where
  "to_lower c = char_of ((of_char c :: nat) + 32)"

text \<open>\<open>str.strip()\<close> and \<open>str.title()\<close> on ASCII text.\<close>

definition strip :: "string \<Rightarrow> string" where
  "strip s = rev (dropWhile is_space (rev (dropWhile is_space s)))"

fun title_from :: "bool \<Rightarrow> string \<Rightarrow> string" where
  "title_from prev_cased [] = []"
| "title_from prev_cased (c # cs) =
     (if is_lower c then (if prev_cased then c else to_upper c) # title_from True cs
      else if is_upper c then (if prev_cased then to_lower c else c) # title_from True cs
      else c # title_from False cs)"

definition title :: "string \<Rightarrow> string" where
  "title s = title_from False s"

text \<open>
  \<open>df[col].str.strip().str.title()\<close>: the \<open>.str\<close> accessor raises on a column
  that is not of object type; in an object column an entry that is no string becomes
  missing.
\<close>

definition strip_title_cell :: "cell \<Rightarrow> cell" where
  "strip_title_cell x = (case x of Str s \<Rightarrow> Str (title (strip s)) | _ \<Rightarrow> NA)"

fun format_text :: "string list \<Rightarrow> dataframe \<Rightarrow> error + dataframe" where
  "format_text [] df = Inr df"
| "format_text (c # cs) df =
     (if c \<in> set (columns df)
      then (if dtypes df c \<noteq> Object
            then Inl (AttributeError ''Can only use .str accessor with string values!'')
            else format_text cs (assign c Object (\<lambda>r. strip_title_cell (r c)) df))
      else format_text cs df)"

subsection \<open>Outlier removal\<close>

text \<open>
  \<open>Series.quantile(q)\<close>: linear interpolation between the two nearest order
  statistics of the present entries; none for an empty series.
\<close>

definition quantile :: "rat list \<Rightarrow> rat \<Rightarrow> rat option" where
  "quantile xs q =
     (let s = sort xs; n = length s
      in if n = 0 then None
         else let h = of_nat (n - 1) * q;
                  lo = nat \<lfloor>h\<rfloor>;
                  hi = min (lo + 1) (n - 1)
              in Some (s ! lo + (s ! hi - s ! lo) * (h - of_nat lo)))"

text \<open>
  \<open>(value >= Q1 - 1.5 * IQR) & (value <= Q3 + 1.5 * IQR)\<close>: false for a missing
  value and whenever a quartile is missing.
\<close>

definition within_fences :: "rat option \<Rightarrow> rat option \<Rightarrow> cell \<Rightarrow> bool" where
  "within_fences Q1 Q3 x =
     (case (x, Q1, Q3) of
        (Num v, Some q1, Some q3) \<Rightarrow>
          q1 - 3 / 2 * (q3 - q1) \<le> v \<and> v \<le> q3 + 3 / 2 * (q3 - q1)
      | _ \<Rightarrow> False)"

definition remove_outliers :: "dataframe \<Rightarrow> dataframe" where
  "remove_outliers df =
     (let vs = numbers (column df ''value'');
          Q1 = quantile vs (1 / 4);
          Q3 = quantile vs (3 / 4)
      in filter_rows (\<lambda>r. within_fences Q1 Q3 (r ''value'')) df)"

subsection \<open>Code mapping\<close>

definition area_map :: "(string \<times> string) list" where
  "area_map =
     [(''NUS'', ''United States''),
      (''R10'', ''PADD 1 (East Coast)''),
      (''R1X'', ''PADD 1A (New England)''),
      (''R1Y'', ''PADD 1B (Central Atlantic)''),
      (''R20'', ''PADD 2 (Midwest)''),
      (''R30'', ''PADD 3 (Gulf Coast)''),
      (''R40'', ''PADD 4 (Rocky Mountain)''),
      (''R50'', ''PADD 5 (West Coast)''),
      (''R5XCA'', ''PADD 5 (Except California)''),
      (''SCA'', ''California'')]"

text \<open>The dash in the second name is U+2013, here in UTF-8.\<close>

definition product_map :: "(string \<times> string) list" where
  "product_map =
     [(''EPD2D'', ''No 2 Diesel''),
      (''EPD2DXL0'', ''Ultra-Low Sulfur Diesel (0'' @ [CHR 0xE2, CHR 0x80, CHR 0x93] @ ''15 ppm)''),
      (''EPM0'', ''Total Gasoline''),
      (''EPMR'', ''Regular Gasoline''),
      (''EPMP'', ''Premium Gasoline''),
      (''EPM0R'', ''Reformulated Motor Gasoline'')]"

text \<open>\<open>Series.map(d)\<close> on one element: missing unless the element is a key of \<open>d\<close>.\<close>

definition map_cell :: "(string \<times> string) list \<Rightarrow> cell \<Rightarrow> cell" where
  "map_cell d x =
     (case x of
        Str s \<Rightarrow> (case map_of d s of Some name \<Rightarrow> Str name | None \<Rightarrow> NA)
      | _ \<Rightarrow> NA)"

text \<open>\<open>s.fillna(v)\<close> on one element.\<close>

definition fill_cell :: "cell \<Rightarrow> cell \<Rightarrow> cell" where
  "fill_cell x v = (if x = NA then v else x)"

definition map_codes :: "dataframe \<Rightarrow> dataframe" where
  "map_codes df =
     (let df1 = (if ''product'' \<in> set (columns df)
                 then assign ''product'' (dtypes df ''product'')
                        (\<lambda>r. fill_cell (map_cell product_map (r ''product'')) (r ''product'')) df
                 else df)
      in if ''duoarea'' \<in> set (columns df1)
         then assign ''duoarea'' Object
                (\<lambda>r. fill_cell (map_cell area_map (r ''duoarea'')) (Str ''Unknown'')) df1
         else df1)"

subsection \<open>The cleaning function\<close>

definition clean_csv_path :: string where
  "clean_csv_path = ''data/processed/petroleum_clean.csv''"

text \<open>Line 79, on the caller's table: \<open>df['period'] = pd.to_datetime(df['period'], errors='coerce')\<close>.\<close>

definition convert_period :: "pandas \<Rightarrow> dataframe \<Rightarrow> dataframe" where
  "convert_period pd df =
     assign ''period'' Datetime (\<lambda>r. datetime_cell pd (column df ''period'') (r ''period'')) df"

text \<open>
  Lines 80 to 84, on the table that line 79 leaves: the year filter, the conversion of
  \<open>value\<close> (a \<open>KeyError\<close> when the column is absent) and the removal of
  duplicates.
\<close>

definition without_duplicates :: "pandas \<Rightarrow> dataframe \<Rightarrow> error + dataframe" where
  "without_duplicates pd df0 =
     (let df1 = filter_rows (\<lambda>r. year_between 1990 2025 (r ''period'')) df0
      in if ''value'' \<notin> set (columns df1) then Inl (KeyError ''value'')
         else Inr (drop_duplicates
                     (assign ''value'' Number (\<lambda>r. numeric_cell pd (r ''value'')) df1)))"

text \<open>Lines 87 to 96: the imputation and the text formatting.\<close>

definition impute_and_format :: "dataframe \<Rightarrow> error + dataframe" where
  "impute_and_format df3 =
     (let df4 = fill_numeric df3
      in case fill_objects (other_cols df4) df4 of
           Inl e \<Rightarrow> Inl e
         | Inr df5 \<Rightarrow> format_text [''area-name'', ''product-name'', ''process-name''] df5)"

text \<open>Lines 80 to 96: the working set that the outlier filter receives.\<close>

definition prepare :: "pandas \<Rightarrow> dataframe \<Rightarrow> error + dataframe" where
  "prepare pd df0 =
     (case without_duplicates pd df0 of
        Inl e \<Rightarrow> Inl e
      | Inr df3 \<Rightarrow> impute_and_format df3)"

definition clean_petroleum_data :: "pandas \<Rightarrow> dataframe \<Rightarrow> files \<Rightarrow> dataframe frame_outcome" where
  "clean_petroleum_data pd df fs =
     (if ''period'' \<notin> set (columns df)
      then \<lparr>returned = Inl (KeyError ''period''), files_after = fs, arg_after = df\<rparr>
      else
        let df0 = convert_period pd df
        in case prepare pd df0 of
             Inl e \<Rightarrow> \<lparr>returned = Inl e, files_after = fs, arg_after = df0\<rparr>
           | Inr w \<Rightarrow>
               let out = map_codes (remove_outliers w)
               in \<lparr>returned = Inr out,
                   files_after = persist out clean_csv_path fs,
                   arg_after = df0\<rparr>)"


section \<open>main.py\<close>

text \<open>
  Lines 47 to 60 of the orchestrator: fetch, write the raw file, clean, write the cleaned
  file. An exception of the fetcher or of the cleaner ends the run. The chart steps that
  follow line 60 are not part of this function.
\<close>

definition main_fetch_clean :: "pandas \<Rightarrow> response \<Rightarrow> files \<Rightarrow> dataframe outcome" where
  "main_fetch_clean pd r fs =
     (let fetched = fetch_petroleum_data pd r fs
      in (case returned fetched of
            Inl e \<Rightarrow> \<lparr>returned = Inl e, files_after = files_after fetched\<rparr>
          | Inr df \<Rightarrow>
              (let fs1 = to_csv df raw_csv_path (files_after fetched);
                   cleaned = clean_petroleum_data pd df fs1
               in (case returned cleaned of
                     Inl e \<Rightarrow> \<lparr>returned = Inl e, files_after = files_after cleaned\<rparr>
                   | Inr out \<Rightarrow>
                       \<lparr>returned = Inr out,
                        files_after = to_csv out clean_csv_path (files_after cleaned)\<rparr>))))"

section \<open>visualize\_plotly.py\<close>

text \<open>
  A call of the chart library: the kind of figure and the columns it is told to read
  (x, y, colour and, for a scatter plot, size).
\<close>

datatype chart =
  Scatter string string string string
| Line string string string
| Bar string string string

text \<open>
  The chart library is no part of the repository: building a figure from a table either
  yields the document that \<open>write_html\<close> stores or raises. It is a parameter of the
  model.
\<close>

type_synonym plotly = "chart \<Rightarrow> dataframe \<Rightarrow> error + cell list list"

text \<open>
  \<open>pd.to_datetime(df['period'])\<close> without \<open>errors='coerce'\<close>: an element that is
  present and does not parse raises.
\<close>

definition unparsable :: "pandas \<Rightarrow> cell list \<Rightarrow> bool" where
  "unparsable pd col = list_ex (\<lambda>x. x \<noteq> NA \<and> datetime_cell pd col x = NA) col"

text \<open>
  \<open>.dt.year.astype(str)\<close>: the years are integers when every date is present; with a
  missing date the series holds floating-point years, and the missing one reads \<open>nan\<close>.
\<close>

definition year_str :: "bool \<Rightarrow> cell \<Rightarrow> cell" where
  "year_str any_missing x =
     (case x of
        Date y m d \<Rightarrow> Str (if any_missing then show_nat y @ ''.0'' else show_nat y)
      | _ \<Rightarrow> Str ''nan'')"

definition add_year :: "pandas \<Rightarrow> dataframe \<Rightarrow> dataframe" where
  "add_year pd df =
     (let col = column df ''period'';
          any_missing = list_ex (\<lambda>x. datetime_cell pd col x = NA) col
      in assign ''year'' Object (\<lambda>r. year_str any_missing (datetime_cell pd col (r ''period''))) df)"

definition in_years :: "string list \<Rightarrow> cell \<Rightarrow> bool" where
  "in_years ys x = (case x of Str s \<Rightarrow> s \<in> set ys | _ \<Rightarrow> False)"

text \<open>
  Lines 79 to 102: the two bar charts of the regional subset, or the warning when the
  subset is empty. \<open>Inl\<close> carries the exception and the files written before it.
\<close>

definition regional_charts :: "plotly \<Rightarrow> dataframe \<Rightarrow> files \<Rightarrow> (error \<times> files) + files" where
  "regional_charts px regional_data fs =
     (if empty regional_data then Inr fs
      else (case px (Bar ''area-name'' ''value'' ''product-name'') regional_data of
              Inl e \<Rightarrow> Inl (e, fs)
            | Inr fig3 \<Rightarrow>
                (case px (Bar ''product-name'' ''value'' ''period'') regional_data of
                   Inl e \<Rightarrow> Inl (e, fs(''outputs/regional_cost.html'' \<mapsto> fig3))
                 | Inr fig4 \<Rightarrow>
                     Inr (fs(''outputs/regional_cost.html'' \<mapsto> fig3,
                             ''outputs/fuel_type_comparison.html'' \<mapsto> fig4)))))"

text \<open>Lines 76 to 112, once the first two figures are written.\<close>

definition charts_from_year :: "pandas \<Rightarrow> plotly \<Rightarrow> dataframe \<Rightarrow> files \<Rightarrow> unit frame_outcome" where
  "charts_from_year pd px df fs =
     (if ''period'' \<notin> set (columns df)
      then \<lparr>returned = Inl (KeyError ''period''), files_after = fs, arg_after = df\<rparr>
      else if unparsable pd (column df ''period'')
      then \<lparr>returned = Inl (ValueError ''period''), files_after = fs, arg_after = df\<rparr>
      else
        (let df1 = add_year pd df;
             regional_data =
               filter_rows (\<lambda>r. in_years [''2021'', ''2024'', ''2025''] (r ''year'')) df1
         in (case regional_charts px regional_data fs of
               Inl efs \<Rightarrow> \<lparr>returned = Inl (fst efs), files_after = snd efs, arg_after = df1\<rparr>
             | Inr fs4 \<Rightarrow>
                 (case px (Line ''period'' ''value'' ''area-name'') df1 of
                    Inl e \<Rightarrow> \<lparr>returned = Inl e, files_after = fs4, arg_after = df1\<rparr>
                  | Inr fig5 \<Rightarrow>
                      \<lparr>returned = Inr (),
                       files_after = fs4(''outputs/national_vs_states.html'' \<mapsto> fig5),
                       arg_after = df1\<rparr>))))"

definition create_all_charts :: "pandas \<Rightarrow> plotly \<Rightarrow> dataframe \<Rightarrow> files \<Rightarrow> unit frame_outcome" where
  "create_all_charts pd px df fs =
     (case px (Scatter ''value'' ''product-name'' ''value'' ''value'') df of
        Inl e \<Rightarrow> \<lparr>returned = Inl e, files_after = fs, arg_after = df\<rparr>
      | Inr fig1 \<Rightarrow>
          (case px (Line ''period'' ''value'' ''product-name'') df of
             Inl e \<Rightarrow>
               \<lparr>returned = Inl e, files_after = fs(''outputs/scatter_prices.html'' \<mapsto> fig1),
                arg_after = df\<rparr>
           | Inr fig2 \<Rightarrow>
               charts_from_year pd px df
                 (fs(''outputs/scatter_prices.html'' \<mapsto> fig1,
                     ''outputs/price_trend.html'' \<mapsto> fig2))))"

section \<open>Notions used in the statements\<close>

text \<open>The success class of HTTP status codes (2xx).\<close>

definition http_success :: "nat \<Rightarrow> bool" where
  "http_success status = (200 \<le> status \<and> status < 300)"

text \<open>The index labels of a table, and its rows as records (label and fields in column order).\<close>

definition labels :: "dataframe \<Rightarrow> nat list" where
  "labels df = map fst (rows df)"

definition records :: "dataframe \<Rightarrow> (nat \<times> (string \<times> cell) list) list" where
  "records df = map (\<lambda>ir. (fst ir, map (\<lambda>c. (c, snd ir c)) (columns df))) (rows df)"

text \<open>
  Every value of a table lies within the fences computed from that same table: the
  outlier filter, run on the table again, keeps every row.
\<close>

definition own_fences_hold :: "dataframe \<Rightarrow> bool" where
  "own_fences_hold df =
     (let vs = numbers (column df ''value'')
      in list_all (\<lambda>ir. within_fences (quantile vs (1 / 4)) (quantile vs (3 / 4)) (snd ir ''value''))
           (rows df))"

text \<open>A row after lines 79 and 81: the period and the value converted, the rest untouched.\<close>

definition converted_row :: "pandas \<Rightarrow> dataframe \<Rightarrow> row \<Rightarrow> row" where
  "converted_row pd df r =
     r(''period'' := datetime_cell pd (column df ''period'') (r ''period''),
       ''value'' := numeric_cell pd (r ''value''))"

text \<open>
  A step keeps the cells that \<open>K\<close> singles out: the second table has the rows of the
  first, label by label, and every cell \<open>x\<close> of a column \<open>c\<close> with \<open>K c x\<close> is
  unchanged.
\<close>

definition cells_kept :: "(string \<Rightarrow> cell \<Rightarrow> bool) \<Rightarrow> dataframe \<Rightarrow> dataframe \<Rightarrow> bool" where
  "cells_kept K d d' =
     list_all2 (\<lambda>ir ir'. fst ir' = fst ir \<and> (\<forall>c. K c (snd ir c) \<longrightarrow> snd ir' c = snd ir c))
       (rows d) (rows d')"

section \<open>Reference parsers and concrete tables\<close>

text \<open>
  A concrete instance of the library functions, for evaluating the functions on concrete
  inputs. It agrees with the library on the texts used below: a four-digit year within the
  range of nanosecond timestamps is the first of January of that year, a plain unsigned
  decimal is its value, and a text that is neither a date nor a number fails to parse.
  Other formats that the library accepts are outside this instance, and so are the tables
  the constructor builds from other values than null and lists of row objects.
\<close>

definition is_digit :: "char \<Rightarrow> bool" where
  "is_digit c = (let n = (of_char c :: nat) in 48 \<le> n \<and> n \<le> 57)"

definition digits_value :: "string \<Rightarrow> nat" where
  "digits_value s = foldl (\<lambda>a c. 10 * a + ((of_char c :: nat) - 48)) 0 s"

definition year_text :: "cell \<Rightarrow> (nat \<times> nat \<times> nat) option" where
  "year_text x =
     (case x of
        Str s \<Rightarrow>
          (if length s = 4 \<and> list_all is_digit s \<and> 1678 \<le> digits_value s \<and> digits_value s \<le> 2262
           then Some (digits_value s, 1, 1) else None)
      | _ \<Rightarrow> None)"

definition decimal_text :: "cell \<Rightarrow> rat option" where
  "decimal_text x =
     (case x of
        Str s \<Rightarrow>
          (let whole = takeWhile is_digit s
           in if whole = [] then None
              else (case dropWhile is_digit s of
                      [] \<Rightarrow> Some (of_nat (digits_value whole))
                    | c # ds \<Rightarrow>
                        (if c = CHR ''.'' \<and> ds \<noteq> [] \<and> list_all is_digit ds
                         then Some (of_nat (digits_value whole)
                                    + of_nat (digits_value ds) / 10 ^ length ds)
                         else None)))
      | _ \<Rightarrow> None)"

definition reference_pandas :: pandas where
  "reference_pandas =
     \<lparr>parse_datetime = (\<lambda>col. year_text), parse_numeric = decimal_text,
      other_frame = (\<lambda>data. Inl ''DataFrame constructor not properly called!'')\<rparr>"

text \<open>
  The body \<open>{"response": {"data": []}}\<close> of an answer without rows, and the body
  \<open>{"response": null}\<close>.
\<close>

definition no_rows_body :: json where
  "no_rows_body = JObj [(''response'', JObj [(''data'', JArr [])])]"

definition null_response_body :: json where
  "null_response_body = JObj [(''response'', JNull)]"

text \<open>Three rows: a year before 1990, a year within the range, and a period that is no date.\<close>

definition period_rows :: "(string \<times> cell) list list" where
  "period_rows =
     [[(''period'', Str ''1850''), (''value'', Str ''3'')],
      [(''period'', Str ''2001''), (''value'', Str ''3'')],
      [(''period'', Str ''n/a''), (''value'', Str ''3'')]]"

text \<open>Three rows, the first two equal on every field.\<close>

definition repeated_rows :: "(string \<times> cell) list list" where
  "repeated_rows =
     [[(''period'', Str ''2020''), (''value'', Str ''3''), (''duoarea'', Str ''NUS'')],
      [(''period'', Str ''2020''), (''value'', Str ''3''), (''duoarea'', Str ''NUS'')],
      [(''period'', Str ''2021''), (''value'', Str ''3''), (''duoarea'', Str ''XX'')]]"

text \<open>A table with the label columns that the charts read.\<close>

definition labelled_rows :: "(string \<times> cell) list list" where
  "labelled_rows =
     [[(''period'', Str ''2024''), (''value'', Num 3),
       (''product-name'', Str ''Regular Gasoline''), (''area-name'', Str ''U.S.'')],
      [(''period'', Str ''2019''), (''value'', Num 2),
       (''product-name'', Str ''Regular Gasoline''), (''area-name'', Str ''U.S.'')]]"

text \<open>Two rows with a known and an unknown region code and product code.\<close>

definition coded_rows :: "(string \<times> cell) list list" where
  "coded_rows =
     [[(''product'', Str ''EPMR''), (''duoarea'', Str ''NUS'')],
      [(''product'', Str ''EPX''), (''duoarea'', Str ''R99'')]]"

text \<open>The row of the scenario, as the fetcher receives it.\<close>

definition scenario_row :: "(string \<times> cell) list" where
  "scenario_row =
     [(''period'', Str ''2025''), (''value'', Str ''3.459''),
      (''product'', Str ''EPMR''), (''duoarea'', Str ''NUS'')]"

text \<open>What the cleaner returns for the row of the scenario.\<close>

definition scenario_cleaned :: dataframe where
  "scenario_cleaned =
     projr (returned (clean_petroleum_data reference_pandas (DataFrame [scenario_row]) Map.empty))"

text \<open>
  A reference instance of the chart library: a figure is built when every column it is told
  to read is a column of the table, and the library raises a \<open>ValueError\<close> otherwise.
\<close>

fun chart_columns :: "chart \<Rightarrow> string list" where
  "chart_columns (Scatter x y colour sz) = [x, y, colour, sz]"
| "chart_columns (Line x y colour) = [x, y, colour]"
| "chart_columns (Bar x y colour) = [x, y, colour]"

definition reference_plotly :: plotly where
  "reference_plotly ch df =
     (if list_all (\<lambda>c. c \<in> set (columns df)) (chart_columns ch) then Inr [[Str ''figure'']]
      else Inl (ValueError ''not the name of a column''))"

text \<open>Five yearly prices, one of them far from the others.\<close>

definition outlier_rows :: "(string \<times> cell) list list" where
  "outlier_rows =
     [[(''period'', Str ''2020''), (''value'', Str ''10'')],
      [(''period'', Str ''2020''), (''value'', Str ''11'')],
      [(''period'', Str ''2020''), (''value'', Str ''12'')],
      [(''period'', Str ''2020''), (''value'', Str ''18'')],
      [(''period'', Str ''2020''), (''value'', Str ''100'')]]"

text \<open>Two rows that differ only in that the price of the second does not parse.\<close>

definition imputed_rows :: "(string \<times> cell) list list" where
  "imputed_rows =
     [[(''period'', Str ''2020''), (''value'', Str ''3''),
       (''product'', Str ''EPMR''), (''duoarea'', Str ''NUS'')],
      [(''period'', Str ''2020''), (''value'', Str ''abc''),
       (''product'', Str ''EPMR''), (''duoarea'', Str ''NUS'')]]"

text \<open>One row whose price does not parse.\<close>

definition unpriced_row :: "(string \<times> cell) list" where
  "unpriced_row =
     [(''period'', Str ''2020''), (''value'', Str ''abc''),
      (''product'', Str ''EPMR''), (''duoarea'', Str ''NUS'')]"

text \<open>A table with a period column and no value column.\<close>

definition period_only_row :: "(string \<times> cell) list" where
  "period_only_row = [(''period'', Str ''2025'')]"


section \<open>Evaluation on concrete inputs\<close>

text \<open>The equations that evaluate the functions above on a concrete table.\<close>

lemmas frame_defs = DataFrame_def dict_get_def infer_dtype_def is_num_def is_num_or_na_def
  column_def assign_def filter_rows_def datetime_cell_def numeric_cell_def year_between_def
  drop_duplicates_def fillna_def numeric_cols_def other_cols_def fill_numeric_def median_def mode0_def
  quantile_def within_fences_def remove_outliers_def map_codes_def map_cell_def fill_cell_def
  convert_period_def without_duplicates_def impute_and_format_def prepare_def clean_petroleum_data_def
  records_def area_map_def product_map_def labels_def own_fences_hold_def
  reference_pandas_def year_text_def decimal_text_def is_digit_def digits_value_def
  empty_def empty_frame_def csv_lines_def to_csv_def touch_def persist_def clean_csv_path_def raw_csv_path_def
  Let_def

lemmas chart_defs = create_all_charts_def charts_from_year_def regional_charts_def add_year_def
  unparsable_def year_str_def in_years_def reference_plotly_def

lemma floor_numeral_div: "\<lfloor>numeral a / numeral b :: rat\<rfloor> = numeral a div numeral b"
  using floor_divide_of_int_eq [of "numeral a" "numeral b", where ?'a = rat] by simp

lemma show_years: "show_nat 2024 = ''2024''" "show_nat 2019 = ''2019''"
  by code_simp+

section \<open>Steps that keep cells\<close>

lemma list_all2_same_fst:
  "list_all2 (\<lambda>x y. fst y = fst x \<and> Q x y) xs ys \<Longrightarrow> map fst ys = map fst xs"
  by (induction xs ys rule: list_all2_induct) auto

lemma cells_kept_refl: "cells_kept K d d"
  by (simp add: cells_kept_def list_all2_refl)

lemma cells_kept_trans:
  assumes "cells_kept K a b" and "cells_kept K b c"
  shows "cells_kept K a c"
  using assms unfolding cells_kept_def
  by (rule list_all2_trans [rotated]) auto

lemma cells_kept_labels: "cells_kept K d d' \<Longrightarrow> labels d' = labels d"
  unfolding cells_kept_def labels_def by (rule list_all2_same_fst)

lemma cells_kept_source:
  assumes "cells_kept K d d'" and "ir' \<in> set (rows d')"
  shows "\<exists>ir\<in>set (rows d). fst ir' = fst ir \<and> (\<forall>c. K c (snd ir c) \<longrightarrow> snd ir' c = snd ir c)"
proof -
  from assms(2) obtain k where k: "k < length (rows d')" "rows d' ! k = ir'"
    by (auto simp: in_set_conv_nth)
  from assms(1) have len: "length (rows d) = length (rows d')"
    by (simp add: cells_kept_def list_all2_lengthD)
  from assms(1) k len
  have "fst ir' = fst (rows d ! k) \<and> (\<forall>c. K c (snd (rows d ! k) c) \<longrightarrow> snd ir' c = snd (rows d ! k) c)"
    by (auto simp: cells_kept_def list_all2_conv_all_nth)
  moreover from k len have "rows d ! k \<in> set (rows d)"
    by simp
  ultimately show ?thesis by blast
qed

lemma cells_kept_invariant:
  assumes "cells_kept K d d'" and "\<forall>ir\<in>set (rows d). K c (snd ir c)"
  shows "\<forall>ir\<in>set (rows d'). K c (snd ir c)"
proof
  fix ir'
  assume "ir' \<in> set (rows d')"
  from cells_kept_source [OF assms(1) this] obtain ir
    where "ir \<in> set (rows d)" and "\<forall>c. K c (snd ir c) \<longrightarrow> snd ir' c = snd ir c"
    by blast
  with assms(2) show "K c (snd ir' c)"
    by fastforce
qed

lemma cells_kept_assign:
  assumes "\<And>x. \<not> K c x"
  shows "cells_kept K d (assign c ty f d)"
  using assms by (simp add: cells_kept_def assign_def list_all2_map2 list_all2_refl)

lemma cells_kept_fillna:
  assumes "\<And>c. \<not> K c NA"
  shows "cells_kept K d (fillna c v d)"
  using assms by (auto simp: cells_kept_def fillna_def list_all2_map2 intro!: list_all2_refl)

lemma cells_kept_fold_fillna:
  assumes "\<And>c. \<not> K c NA"
  shows "cells_kept K d (fold (\<lambda>c e. case g c of None \<Rightarrow> e | Some m \<Rightarrow> fillna c (h m) e) cs d)"
proof (induction cs arbitrary: d)
  case Nil
  show ?case by (simp add: cells_kept_refl)
next
  case (Cons c cs)
  show ?case
  proof (cases "g c")
    case None
    with Cons show ?thesis by simp
  next
    case (Some m)
    have "cells_kept K d (fillna c (h m) d)"
      using assms by (rule cells_kept_fillna)
    with Cons [of "fillna c (h m) d"] Some show ?thesis
      by (auto intro: cells_kept_trans)
  qed
qed

lemma cells_kept_fill_numeric:
  assumes "\<And>c. \<not> K c NA"
  shows "cells_kept K d (fill_numeric d)"
  unfolding fill_numeric_def using assms by (rule cells_kept_fold_fillna)

lemma cells_kept_fill_objects:
  assumes "\<And>c. \<not> K c NA" and "fill_objects cs d = Inr d'"
  shows "cells_kept K d d'"
  using assms(2)
proof (induction cs arbitrary: d)
  case Nil
  then show ?case by (simp add: cells_kept_refl)
next
  case (Cons c cs)
  then obtain v where v: "mode0 (column d c) = Some v" and rest: "fill_objects cs (fillna c v d) = Inr d'"
    by (auto split: option.splits)
  have "cells_kept K d (fillna c v d)"
    using assms(1) by (rule cells_kept_fillna)
  with Cons.IH [OF rest] show ?case
    by (rule cells_kept_trans [rotated])
qed

lemma cells_kept_format_text:
  assumes "\<And>c x. c \<in> set cs \<Longrightarrow> \<not> K c x" and "format_text cs d = Inr d'"
  shows "cells_kept K d d'"
  using assms
proof (induction cs arbitrary: d)
  case Nil
  then show ?case by (simp add: cells_kept_refl)
next
  case (Cons c cs)
  show ?case
  proof (cases "c \<in> set (columns d)")
    case False
    with Cons show ?thesis by simp
  next
    case True
    with Cons.prems(2) have rest: "format_text cs (assign c Object (\<lambda>r. strip_title_cell (r c)) d) = Inr d'"
      by (simp split: if_splits)
    have "cells_kept K d (assign c Object (\<lambda>r. strip_title_cell (r c)) d)"
      by (rule cells_kept_assign) (simp add: Cons.prems(1))
    moreover have "cells_kept K (assign c Object (\<lambda>r. strip_title_cell (r c)) d) d'"
      using Cons.prems(1) rest by (intro Cons.IH) auto
    ultimately show ?thesis by (rule cells_kept_trans)
  qed
qed

lemma cells_kept_map_codes:
  assumes "\<And>x. \<not> K ''product'' x" and "\<And>x. \<not> K ''duoarea'' x"
  shows "cells_kept K d (map_codes d)"
proof -
  define d1 where "d1 = (if ''product'' \<in> set (columns d)
      then assign ''product'' (dtypes d ''product'')
             (\<lambda>r. fill_cell (map_cell product_map (r ''product'')) (r ''product'')) d
      else d)"
  have one: "cells_kept K d d1"
    unfolding d1_def using assms(1) by (simp add: cells_kept_refl cells_kept_assign)
  have two: "cells_kept K d1 (if ''duoarea'' \<in> set (columns d1)
      then assign ''duoarea'' Object
             (\<lambda>r. fill_cell (map_cell area_map (r ''duoarea'')) (Str ''Unknown'')) d1
      else d1)"
    using assms(2) by (simp add: cells_kept_refl cells_kept_assign)
  have "map_codes d = (if ''duoarea'' \<in> set (columns d1)
      then assign ''duoarea'' Object
             (\<lambda>r. fill_cell (map_cell area_map (r ''duoarea'')) (Str ''Unknown'')) d1
      else d1)"
    by (simp add: map_codes_def d1_def Let_def)
  with one two show ?thesis
    by (auto intro: cells_kept_trans)
qed

lemma cells_kept_no_rows: "cells_kept K d d' \<Longrightarrow> rows d = [] \<Longrightarrow> rows d' = []"
  by (simp add: cells_kept_def)

lemma fillna_frame: "columns (fillna c v d) = columns d" "dtypes (fillna c v d) = dtypes d"
  by (simp_all add: fillna_def)

lemma fill_numeric_frame:
  "columns (fill_numeric d) = columns d \<and> dtypes (fill_numeric d) = dtypes d"
proof -
  have "columns (fold (\<lambda>c e. case g c of None \<Rightarrow> e | Some m \<Rightarrow> fillna c (Num m) e) cs d) = columns d
      \<and> dtypes (fold (\<lambda>c e. case g c of None \<Rightarrow> e | Some m \<Rightarrow> fillna c (Num m) e) cs d) = dtypes d"
    for g :: "string \<Rightarrow> rat option" and cs
    by (induction cs arbitrary: d) (auto simp: fillna_frame split: option.splits)
  then show ?thesis
    by (simp add: fill_numeric_def)
qed

section \<open>The shape of a run of the cleaner\<close>

lemma clean_returns:
  assumes "returned (clean_petroleum_data pd df fs) = Inr out"
  shows "''period'' \<in> set (columns df)
         \<and> (\<exists>w. prepare pd (convert_period pd df) = Inr w \<and> out = map_codes (remove_outliers w))"
proof (cases "''period'' \<in> set (columns df)")
  case False
  with assms show ?thesis by (simp add: clean_petroleum_data_def)
next
  case True
  show ?thesis
  proof (cases "prepare pd (convert_period pd df)")
    case (Inl e)
    with assms True show ?thesis by (simp add: clean_petroleum_data_def)
  next
    case (Inr w)
    with assms True show ?thesis by (simp add: clean_petroleum_data_def Let_def)
  qed
qed

lemma prepare_returns:
  assumes "prepare pd df0 = Inr w"
  shows "\<exists>df3. without_duplicates pd df0 = Inr df3 \<and> impute_and_format df3 = Inr w"
  using assms by (cases "without_duplicates pd df0") (simp_all add: prepare_def)

lemma without_duplicates_returns:
  assumes "without_duplicates pd df0 = Inr df3"
  shows "''value'' \<in> set (columns df0)
         \<and> df3 = drop_duplicates (assign ''value'' Number (\<lambda>r. numeric_cell pd (r ''value''))
                    (filter_rows (\<lambda>r. year_between 1990 2025 (r ''period'')) df0))"
proof (cases "''value'' \<in> set (columns df0)")
  case True
  with assms show ?thesis
    by (simp add: without_duplicates_def Let_def filter_rows_def)
next
  case False
  with assms show ?thesis
    by (simp add: without_duplicates_def Let_def filter_rows_def)
qed

text \<open>From the table without duplicates to the working set, cells are only filled or formatted.\<close>

lemma cells_kept_impute_and_format:
  assumes "\<And>c. \<not> K c NA"
    and "\<And>x. \<not> K ''area-name'' x" and "\<And>x. \<not> K ''product-name'' x" and "\<And>x. \<not> K ''process-name'' x"
    and "impute_and_format df3 = Inr w"
  shows "cells_kept K df3 w"
proof -
  from assms(5) obtain df5
    where df5: "fill_objects (other_cols (fill_numeric df3)) (fill_numeric df3) = Inr df5"
      and w: "format_text [''area-name'', ''product-name'', ''process-name''] df5 = Inr w"
    by (cases "fill_objects (other_cols (fill_numeric df3)) (fill_numeric df3)")
       (simp_all add: impute_and_format_def Let_def)
  have "cells_kept K df3 (fill_numeric df3)"
    using assms(1) by (rule cells_kept_fill_numeric)
  moreover have "cells_kept K (fill_numeric df3) df5"
    using assms(1) df5 by (rule cells_kept_fill_objects)
  moreover have "cells_kept K df5 w"
  proof (rule cells_kept_format_text [OF _ w])
    fix c x
    assume "c \<in> set [''area-name'', ''product-name'', ''process-name'']"
    then have "c = ''area-name'' \<or> c = ''product-name'' \<or> c = ''process-name''"
      by simp
    with assms(2,3,4) show "\<not> K c x" by blast
  qed
  ultimately show ?thesis
    by (blast intro: cells_kept_trans)
qed

subsection \<open>Removal of duplicates\<close>

lemma drop_dups_subset: "set (drop_dups cols seen rs) \<subseteq> set rs"
  by (induction rs arbitrary: seen) auto

lemma drop_dups_distinct_labels:
  "distinct (map fst rs) \<Longrightarrow> distinct (map fst (drop_dups cols seen rs))"
proof (induction rs arbitrary: seen)
  case Nil
  show ?case by simp
next
  case (Cons ir rs)
  have "fst ir \<notin> fst ` set (drop_dups cols s rs)" for s
    using Cons.prems drop_dups_subset [of cols s rs] by auto
  with Cons show ?case by simp
qed

lemma drop_dups_views:
  "distinct (map (\<lambda>ir. map (snd ir) cols) (drop_dups cols seen rs))
   \<and> (\<forall>ir\<in>set (drop_dups cols seen rs). map (snd ir) cols \<notin> set seen)"
proof (induction rs arbitrary: seen)
  case Nil
  show ?case by simp
next
  case (Cons ir rs)
  show ?case
  proof (cases "map (snd ir) cols \<in> set seen")
    case True
    with Cons [of seen] show ?thesis by simp
  next
    case False
    with Cons [of "map (snd ir) cols # seen"] show ?thesis by auto
  qed
qed

text \<open>The tables that the constructor builds have the distinct labels \<open>0..n-1\<close>.\<close>

lemma DataFrame_labels: "labels (DataFrame data) = [0..<length data]"
  by (simp add: labels_def DataFrame_def)

lemma DataFrame_labels_distinct: "distinct (labels (DataFrame data))"
  by (simp add: DataFrame_labels)

lemma same_label_same_row:
  assumes "distinct (map fst rs)" and "(i, a) \<in> set rs" and "(i, b) \<in> set rs"
  shows "a = b"
  using assms by (rule eq_key_imp_eq_value)

lemma in_labels: "i \<in> set (labels d) \<longleftrightarrow> (\<exists>r. (i, r) \<in> set (rows d))"
  by (force simp: labels_def)

lemma year_between_Date:
  assumes "year_between lo hi x"
  shows "\<exists>y m d. x = Date y m d \<and> lo \<le> y \<and> y \<le> hi"
  using assms by (cases x) (simp_all add: year_between_def)

lemma without_duplicates_rows:
  assumes "without_duplicates pd (convert_period pd df) = Inr df3" and "''period'' \<in> set (columns df)"
  shows "columns df3 = columns df"
    and "rows df3 = drop_dups (columns df) []
           (map (\<lambda>ir. (fst ir, converted_row pd df (snd ir)))
              (filter (\<lambda>ir. year_between 1990 2025
                               (datetime_cell pd (column df ''period'') (snd ir ''period'')))
                 (rows df)))"
proof -
  from without_duplicates_returns [OF assms(1)]
  have v: "''value'' \<in> set (columns (convert_period pd df))"
    and df3: "df3 = drop_duplicates (assign ''value'' Number (\<lambda>r. numeric_cell pd (r ''value''))
                    (filter_rows (\<lambda>r. year_between 1990 2025 (r ''period'')) (convert_period pd df)))"
    by simp_all
  from assms(2) have cols: "columns (convert_period pd df) = columns df"
    by (simp add: convert_period_def assign_def)
  with v df3 show "columns df3 = columns df"
    by (simp add: drop_duplicates_def assign_def filter_rows_def)
  have upd: "(r(''period'' := x))(''value'' := numeric_cell pd ((r(''period'' := x)) ''value''))
             = r(''period'' := x, ''value'' := numeric_cell pd (r ''value''))" for r :: row and x
    by simp
  from v cols df3 show "rows df3 = drop_dups (columns df) []
           (map (\<lambda>ir. (fst ir, converted_row pd df (snd ir)))
              (filter (\<lambda>ir. year_between 1990 2025
                               (datetime_cell pd (column df ''period'') (snd ir ''period'')))
                 (rows df)))"
    by (simp add: drop_duplicates_def assign_def filter_rows_def convert_period_def
        converted_row_def filter_map o_def upd)
qed

text \<open>Where the rows of the table without duplicates come from.\<close>

lemma without_duplicates_source:
  assumes "without_duplicates pd (convert_period pd df) = Inr df3" and "''period'' \<in> set (columns df)"
    and "(i, a) \<in> set (rows df3)"
  shows "\<exists>r. (i, r) \<in> set (rows df) \<and> a = converted_row pd df r
              \<and> year_between 1990 2025 (datetime_cell pd (column df ''period'') (r ''period''))"
proof -
  from assms(3) without_duplicates_rows(2) [OF assms(1,2)] drop_dups_subset
  have "(i, a) \<in> set (map (\<lambda>ir. (fst ir, converted_row pd df (snd ir)))
              (filter (\<lambda>ir. year_between 1990 2025
                               (datetime_cell pd (column df ''period'') (snd ir ''period'')))
                 (rows df)))"
    by fastforce
  then show ?thesis by auto
qed

text \<open>After the duplicates are gone, rows are only filled, formatted, filtered and mapped.\<close>

lemma labels_after_dedup:
  assumes "impute_and_format df3 = Inr w" and "out = map_codes (remove_outliers w)"
  shows "set (labels out) \<subseteq> set (labels df3)"
    and "distinct (labels df3) \<Longrightarrow> distinct (labels out)"
proof -
  have "cells_kept (\<lambda>c x. False) df3 w"
    using _ _ _ _ assms(1) by (rule cells_kept_impute_and_format) simp_all
  then have w: "labels w = labels df3"
    by (rule cells_kept_labels)
  have "cells_kept (\<lambda>c x. False) (remove_outliers w) out"
    unfolding assms(2) by (rule cells_kept_map_codes) simp_all
  then have out: "labels out = labels (remove_outliers w)"
    by (rule cells_kept_labels)
  have sub: "labels (remove_outliers w) = map fst (filter (\<lambda>ir.
      within_fences (quantile (numbers (column w ''value'')) (1 / 4))
        (quantile (numbers (column w ''value'')) (3 / 4)) (snd ir ''value'')) (rows w))"
    by (simp add: labels_def remove_outliers_def filter_rows_def Let_def)
  have eq: "labels out = map fst (filter (\<lambda>ir.
      within_fences (quantile (numbers (column w ''value'')) (1 / 4))
        (quantile (numbers (column w ''value'')) (3 / 4)) (snd ir ''value'')) (rows w))"
    using out sub by simp
  have "set (labels out) \<subseteq> set (map fst (rows w))"
    unfolding eq by auto
  with w show "set (labels out) \<subseteq> set (labels df3)"
    by (simp add: labels_def)
  show "distinct (labels out)" if "distinct (labels df3)"
  proof -
    from that w have "distinct (map fst (rows w))"
      by (simp add: labels_def)
    then show ?thesis
      unfolding eq by (rule distinct_map_filter)
  qed
qed

subsection \<open>The year column of the charts\<close>

lemma charts_from_year_arg:
  "arg_after (charts_from_year pd px df fs)
   = (if ''period'' \<in> set (columns df) \<and> \<not> unparsable pd (column df ''period'')
      then add_year pd df else df)"
  by (simp add: charts_from_year_def Let_def split: sum.splits)

lemma create_all_charts_arg:
  "arg_after (create_all_charts pd px df fs)
   = (if \<not> isl (px (Scatter ''value'' ''product-name'' ''value'' ''value'') df)
         \<and> \<not> isl (px (Line ''period'' ''value'' ''product-name'') df)
         \<and> ''period'' \<in> set (columns df) \<and> \<not> unparsable pd (column df ''period'')
      then add_year pd df else df)"
  by (simp add: create_all_charts_def charts_from_year_arg split: sum.splits)

lemma add_year_frame:
  "columns (add_year pd df) = (if ''year'' \<in> set (columns df) then columns df else columns df @ [''year''])"
  "cells_kept (\<lambda>c x. c \<noteq> ''year'') df (add_year pd df)"
  "c \<noteq> ''year'' \<Longrightarrow> dtypes (add_year pd df) c = dtypes df c"
  "ir \<in> set (rows (add_year pd df)) \<Longrightarrow> \<exists>s. snd ir ''year'' = Str s"
proof -
  show "columns (add_year pd df) = (if ''year'' \<in> set (columns df) then columns df else columns df @ [''year''])"
    by (simp add: add_year_def assign_def Let_def)
  show "cells_kept (\<lambda>c x. c \<noteq> ''year'') df (add_year pd df)"
    unfolding add_year_def Let_def by (rule cells_kept_assign) simp
  show "dtypes (add_year pd df) c = dtypes df c" if "c \<noteq> ''year''"
    using that by (simp add: add_year_def assign_def Let_def)
  show "\<exists>s. snd ir ''year'' = Str s" if "ir \<in> set (rows (add_year pd df))"
    using that by (auto simp: add_year_def assign_def Let_def year_str_def split: cell.splits)
qed

section \<open>Properties of the fetcher\<close>

text \<open>
  C9, as amended. The fetcher raises the \<open>RuntimeError\<close> whose message carries the
  status code exactly when the status is not 200, and it raises no other
  \<open>RuntimeError\<close>. On status 200 with a JSON object as body whose \<open>response\<close>
  key is absent, or holds an object whose \<open>data\<close> key is absent or holds the empty
  array, it returns the empty table and no error. On status 200 with a JSON object as
  body whose \<open>response\<close> key holds a value that is no object, it raises an
  \<open>AttributeError\<close>.
\<close>

theorem fetch_petroleum_data_request_error:
  "(returned (fetch_petroleum_data pd r fs)
      = Inl (RuntimeError (''API request failed: '' @ show_nat (status_code r)))
    \<longleftrightarrow> status_code r \<noteq> 200)
   \<and> ((\<exists>m. returned (fetch_petroleum_data pd r fs) = Inl (RuntimeError m))
        \<longleftrightarrow> status_code r \<noteq> 200)
   \<and> (status_code r = 200 \<and> body r = Some (JObj members)
        \<and> (map_of (rev members) ''response'' = None
             \<or> (map_of (rev members) ''response'' = Some (JObj resp)
                 \<and> (map_of (rev resp) ''data'' = None
                      \<or> map_of (rev resp) ''data'' = Some (JArr []))))
      \<longrightarrow> returned (fetch_petroleum_data pd r fs) = Inr empty_frame)
   \<and> (status_code r = 200 \<and> body r = Some (JObj members)
        \<and> map_of (rev members) ''response'' = Some v \<and> (\<forall>kvs. v \<noteq> JObj kvs)
      \<longrightarrow> returned (fetch_petroleum_data pd r fs) = Inl (AttributeError ''get''))"
proof -
  have one: "returned (fetch_petroleum_data pd r fs)
      = Inl (RuntimeError (''API request failed: '' @ show_nat (status_code r)))"
    if "status_code r \<noteq> 200"
    using that by (simp add: fetch_petroleum_data_def)
  have two: "returned (fetch_petroleum_data pd r fs) \<noteq> Inl (RuntimeError m)"
    if "status_code r = 200" for m
    using that
    by (auto simp: fetch_petroleum_data_def response_data_def py_get_def frame_of_json_def
        split: option.splits sum.splits json.splits)
  have three: "returned (fetch_petroleum_data pd r fs) = Inr empty_frame"
    if "status_code r = 200" and "body r = Some (JObj members)"
      and "map_of (rev members) ''response'' = None
           \<or> (map_of (rev members) ''response'' = Some (JObj resp)
               \<and> (map_of (rev resp) ''data'' = None \<or> map_of (rev resp) ''data'' = Some (JArr [])))"
    using that
    by (auto simp: fetch_petroleum_data_def response_data_def py_get_def frame_of_json_def truthy_def)
  have four: "returned (fetch_petroleum_data pd r fs) = Inl (AttributeError ''get'')"
    if "status_code r = 200" and "body r = Some (JObj members)"
      and "map_of (rev members) ''response'' = Some v" and "\<forall>kvs. v \<noteq> JObj kvs"
    using that
    by (cases v) (simp_all add: fetch_petroleum_data_def response_data_def py_get_def)
  from one two three four show ?thesis
    by blast
qed

text \<open>
  C9, witness: status 404 raises the error with 404 in its message; status 200 with the
  body \<open>{"response": {"data": []}}\<close> returns the empty table; status 200 with the
  body \<open>{"response": null}\<close> raises the \<open>AttributeError\<close>.
\<close>

theorem fetch_petroleum_data_request_error_witness:
  "status_code \<lparr>status_code = 404, body = None\<rparr> \<noteq> 200
   \<and> returned (fetch_petroleum_data reference_pandas \<lparr>status_code = 404, body = None\<rparr> Map.empty)
       = Inl (RuntimeError ''API request failed: 404'')
   \<and> returned (fetch_petroleum_data reference_pandas
         \<lparr>status_code = 200, body = Some no_rows_body\<rparr> Map.empty)
       = Inr empty_frame
   \<and> returned (fetch_petroleum_data reference_pandas
         \<lparr>status_code = 200, body = Some null_response_body\<rparr> Map.empty)
       = Inl (AttributeError ''get'')"
proof -
  have s: "show_nat 404 = ''404''"
    by code_simp
  have a: "status_code \<lparr>status_code = 404, body = None\<rparr> \<noteq> 200"
    by simp
  from a fetch_petroleum_data_request_error
    [where r = "\<lparr>status_code = 404, body = None\<rparr>" and pd = reference_pandas and fs = Map.empty]
  have b: "returned (fetch_petroleum_data reference_pandas \<lparr>status_code = 404, body = None\<rparr> Map.empty)
       = Inl (RuntimeError ''API request failed: 404'')"
    by (simp add: s)
  have c: "returned (fetch_petroleum_data reference_pandas
         \<lparr>status_code = 200, body = Some no_rows_body\<rparr> Map.empty) = Inr empty_frame"
    using fetch_petroleum_data_request_error
      [where r = "\<lparr>status_code = 200, body = Some no_rows_body\<rparr>" and pd = reference_pandas
        and fs = Map.empty and members = "[(''response'', JObj [(''data'', JArr [])])]"
        and resp = "[(''data'', JArr [])]"]
    by (simp add: no_rows_body_def)
  have d: "returned (fetch_petroleum_data reference_pandas
         \<lparr>status_code = 200, body = Some null_response_body\<rparr> Map.empty)
       = Inl (AttributeError ''get'')"
    using fetch_petroleum_data_request_error
      [where r = "\<lparr>status_code = 200, body = Some null_response_body\<rparr>" and pd = reference_pandas
        and fs = Map.empty and members = "[(''response'', JNull)]" and v = JNull]
    by (simp add: null_response_body_def)
  from a b c d show ?thesis
    by (intro conjI)
qed

text \<open>
  C9, counterexample to the claim as stated. Status 204 is a success status, and the
  fetcher raises the error all the same, although the body holds an empty data array. And
  on status 200 with the body \<open>{"response": null}\<close>, which has no data array, the
  fetcher raises an \<open>AttributeError\<close> and returns no empty result.
\<close>

theorem fetch_petroleum_data_success_status_counterexample:
  "http_success 204
   \<and> returned (fetch_petroleum_data reference_pandas
         \<lparr>status_code = 204, body = Some no_rows_body\<rparr> Map.empty)
       = Inl (RuntimeError ''API request failed: 204'')
   \<and> http_success 200
   \<and> returned (fetch_petroleum_data reference_pandas
         \<lparr>status_code = 200, body = Some null_response_body\<rparr> Map.empty)
       = Inl (AttributeError ''get'')"
proof -
  have s: "show_nat 204 = ''204''"
    by code_simp
  show ?thesis
    by (simp add: http_success_def fetch_petroleum_data_def response_data_def py_get_def
        null_response_body_def s)
qed

section \<open>Properties of the cleaner\<close>

text \<open>
  C1, as amended. Every record that the cleaner returns has a value within the fences
  \<open>[Q1 - 1.5 IQR, Q3 + 1.5 IQR]\<close> computed over the working set that the outlier
  filter received (the deduplicated, imputed and formatted table), not over the cleaned
  output itself: the filter is one pass.
\<close>

theorem clean_values_within_working_fences:
  assumes "returned (clean_petroleum_data pd df fs) = Inr out"
  shows "\<exists>w. prepare pd (convert_period pd df) = Inr w
           \<and> (\<forall>ir\<in>set (rows out).
                 within_fences (quantile (numbers (column w ''value'')) (1 / 4))
                   (quantile (numbers (column w ''value'')) (3 / 4)) (snd ir ''value''))"
proof -
  from clean_returns [OF assms] obtain w
    where w: "prepare pd (convert_period pd df) = Inr w" and out: "out = map_codes (remove_outliers w)"
    by blast
  have kept: "cells_kept (\<lambda>c x. c = ''value'') (remove_outliers w) out"
    unfolding out by (rule cells_kept_map_codes) simp_all
  have "within_fences (quantile (numbers (column w ''value'')) (1 / 4))
          (quantile (numbers (column w ''value'')) (3 / 4)) (snd ir ''value'')"
    if "ir \<in> set (rows out)" for ir
  proof -
    from cells_kept_source [OF kept that] obtain ir0
      where "ir0 \<in> set (rows (remove_outliers w))" and "snd ir ''value'' = snd ir0 ''value''"
      by auto
    then show ?thesis
      by (simp add: remove_outliers_def filter_rows_def Let_def)
  qed
  with w show ?thesis by blast
qed

text \<open>
  C1, witness: the five prices 10, 11, 12, 18, 100 are cleaned without error, and the
  theorem applies to the result.
\<close>

theorem clean_values_within_working_fences_witness:
  "\<not> isl (returned (clean_petroleum_data reference_pandas (DataFrame outlier_rows) Map.empty))
   \<and> (\<exists>w. prepare reference_pandas (convert_period reference_pandas (DataFrame outlier_rows)) = Inr w
          \<and> (\<forall>ir\<in>set (rows (projr
                 (returned (clean_petroleum_data reference_pandas (DataFrame outlier_rows) Map.empty)))).
                within_fences (quantile (numbers (column w ''value'')) (1 / 4))
                  (quantile (numbers (column w ''value'')) (3 / 4)) (snd ir ''value'')))"
proof -
  have ran: "\<not> isl (returned (clean_petroleum_data reference_pandas (DataFrame outlier_rows) Map.empty))"
    by (simp add: frame_defs outlier_rows_def floor_numeral_div)
  then have "returned (clean_petroleum_data reference_pandas (DataFrame outlier_rows) Map.empty)
    = Inr (projr (returned (clean_petroleum_data reference_pandas (DataFrame outlier_rows) Map.empty)))"
    by simp
  from ran clean_values_within_working_fences [OF this] show ?thesis
    by (rule conjI)
qed

text \<open>
  C1, counterexample to the claim as stated. The prices 10, 11, 12, 18, 100 clean to
  10, 11, 12, 18 (the fences of the working set are 0.5 and 28.5). Over the cleaned output
  the quartiles are 10.75 and 13.5, the upper fence is 17.625, and 18 lies outside it:
  running the filter again removes the row with label 3.
\<close>

theorem clean_own_fences_counterexample:
  "map_sum id (\<lambda>out. (column out ''value'', own_fences_hold out, labels (remove_outliers out)))
     (returned (clean_petroleum_data reference_pandas (DataFrame outlier_rows) Map.empty))
   = Inr ([Num 10, Num 11, Num 12, Num 18], False, [0, 1, 2])"
  by (simp add: frame_defs outlier_rows_def floor_numeral_div)

text \<open>
  C2. Whatever else the two library parsers do, if they read the text \<open>2025\<close> as
  the first of January 2025 and the text \<open>3.459\<close> as the number 3.459, the single
  row of the scenario cleans to exactly the one record with that date, that number, the
  product Regular Gasoline and the region United States.
\<close>

theorem clean_scenario_row:
  assumes "parse_datetime pd [Str ''2025''] (Str ''2025'') = Some (2025, 1, 1)"
    and "parse_numeric pd (Str ''3.459'') = Some (3459 / 1000)"
  shows "map_sum id records (returned (clean_petroleum_data pd (DataFrame [scenario_row]) fs))
         = Inr [(0, [(''period'', Date 2025 1 1), (''value'', Num (3459 / 1000)),
                     (''product'', Str ''Regular Gasoline''), (''duoarea'', Str ''United States'')])]"
  using assms by (simp add: frame_defs scenario_row_def)

text \<open>C2, witness: the reference parsers read the two texts that way.\<close>

theorem clean_scenario_row_witness:
  "parse_datetime reference_pandas [Str ''2025''] (Str ''2025'') = Some (2025, 1, 1)
   \<and> parse_numeric reference_pandas (Str ''3.459'') = Some (3459 / 1000)
   \<and> map_sum id records
        (returned (clean_petroleum_data reference_pandas (DataFrame [scenario_row]) Map.empty))
       = Inr [(0, [(''period'', Date 2025 1 1), (''value'', Num (3459 / 1000)),
                   (''product'', Str ''Regular Gasoline''), (''duoarea'', Str ''United States'')])]"
proof -
  have d: "parse_datetime reference_pandas [Str ''2025''] (Str ''2025'') = Some (2025, 1, 1)"
    by (simp add: reference_pandas_def year_text_def decimal_text_def is_digit_def digits_value_def)
  have n: "parse_numeric reference_pandas (Str ''3.459'') = Some (3459 / 1000)"
    by (simp add: reference_pandas_def year_text_def decimal_text_def is_digit_def digits_value_def)
  from d n clean_scenario_row [OF d n, of Map.empty] show ?thesis
    by (simp only: simp_thms)
qed

text \<open>
  C3. Every record that the cleaner returns has a period that is a date with a year from
  1990 to 2025; and, the index labels of the input being distinct, an input row whose
  period does not parse to a date, or parses to a year outside that range, has its label
  absent from the output.
\<close>

theorem clean_period_within_years:
  assumes "returned (clean_petroleum_data pd df fs) = Inr out"
  shows "(\<forall>ir\<in>set (rows out). \<exists>y m d. snd ir ''period'' = Date y m d \<and> 1990 \<le> y \<and> y \<le> 2025)
         \<and> (distinct (labels df) \<longrightarrow>
               (\<forall>ir\<in>set (rows df).
                  \<not> year_between 1990 2025 (datetime_cell pd (column df ''period'') (snd ir ''period''))
                  \<longrightarrow> fst ir \<notin> set (labels out)))"
proof -
  let ?K = "\<lambda>c x. c = ''period'' \<and> year_between 1990 2025 x"
  from clean_returns [OF assms] obtain w
    where period: "''period'' \<in> set (columns df)"
      and w: "prepare pd (convert_period pd df) = Inr w" and out: "out = map_codes (remove_outliers w)"
    by blast
  from prepare_returns [OF w] obtain df3
    where df3: "without_duplicates pd (convert_period pd df) = Inr df3" and imp: "impute_and_format df3 = Inr w"
    by blast
  have "\<forall>ir\<in>set (rows df3). ?K ''period'' (snd ir ''period'')"
  proof
    fix ir
    assume "ir \<in> set (rows df3)"
    then have "(fst ir, snd ir) \<in> set (rows df3)" by simp
    from without_duplicates_source [OF df3 period this]
    show "?K ''period'' (snd ir ''period'')"
      by (auto simp: converted_row_def)
  qed
  moreover have "cells_kept ?K df3 w"
    using _ _ _ _ imp by (rule cells_kept_impute_and_format) (simp_all add: year_between_def)
  ultimately have "\<forall>ir\<in>set (rows w). ?K ''period'' (snd ir ''period'')"
    by (rule cells_kept_invariant [rotated])
  then have "\<forall>ir\<in>set (rows (remove_outliers w)). ?K ''period'' (snd ir ''period'')"
    by (simp add: remove_outliers_def filter_rows_def Let_def)
  moreover have "cells_kept ?K (remove_outliers w) out"
    unfolding out by (rule cells_kept_map_codes) simp_all
  ultimately have "\<forall>ir\<in>set (rows out). ?K ''period'' (snd ir ''period'')"
    by (rule cells_kept_invariant [rotated])
  then have first: "\<forall>ir\<in>set (rows out). \<exists>y m d. snd ir ''period'' = Date y m d \<and> 1990 \<le> y \<and> y \<le> 2025"
    by (blast dest: year_between_Date)
  have second: "fst ir \<notin> set (labels out)"
    if dist: "distinct (labels df)" and ir: "ir \<in> set (rows df)"
      and bad: "\<not> year_between 1990 2025 (datetime_cell pd (column df ''period'') (snd ir ''period''))"
    for ir
  proof
    assume "fst ir \<in> set (labels out)"
    with labels_after_dedup(1) [OF imp out] have "fst ir \<in> set (labels df3)"
      by blast
    then obtain a where "(fst ir, a) \<in> set (rows df3)"
      by (auto simp: in_labels)
    from without_duplicates_source [OF df3 period this] obtain r
      where r: "(fst ir, r) \<in> set (rows df)"
        and good: "year_between 1990 2025 (datetime_cell pd (column df ''period'') (r ''period''))"
      by blast
    from ir have "(fst ir, snd ir) \<in> set (rows df)" by simp
    with dist r have "r = snd ir"
      unfolding labels_def by (rule same_label_same_row)
    with good bad show False by simp
  qed
  from first second show ?thesis by blast
qed

text \<open>
  C3, witness: of the periods 1850, 2001 and n/a only the row of 2001 is returned; the row
  of 1850 (label 0) is absent.
\<close>

theorem clean_period_within_years_witness:
  "\<not> isl (returned (clean_petroleum_data reference_pandas (DataFrame period_rows) Map.empty))
   \<and> distinct (labels (DataFrame period_rows))
   \<and> \<not> year_between 1990 2025
         (datetime_cell reference_pandas (column (DataFrame period_rows) ''period'')
            (snd (rows (DataFrame period_rows) ! 0) ''period''))
   \<and> fst (rows (DataFrame period_rows) ! 0)
       \<notin> set (labels (projr (returned
             (clean_petroleum_data reference_pandas (DataFrame period_rows) Map.empty))))
   \<and> (\<exists>y m d. snd (rows (projr (returned
             (clean_petroleum_data reference_pandas (DataFrame period_rows) Map.empty))) ! 0) ''period''
           = Date y m d \<and> 1990 \<le> y \<and> y \<le> 2025)"
proof -
  let ?D = "DataFrame period_rows"
  let ?X = "clean_petroleum_data reference_pandas ?D Map.empty"
  have ran: "\<not> isl (returned ?X)"
    by (simp add: frame_defs period_rows_def floor_numeral_div)
  then have eq: "returned ?X = Inr (projr (returned ?X))"
    by simp
  note inst = clean_period_within_years [OF eq]
  have dist: "distinct (labels ?D)"
    by (simp add: frame_defs period_rows_def)
  have bad: "\<not> year_between 1990 2025
      (datetime_cell reference_pandas (column ?D ''period'') (snd (rows ?D ! 0) ''period''))"
    by (simp add: frame_defs period_rows_def)
  have mem: "rows ?D ! 0 \<in> set (rows ?D)"
    by (simp add: frame_defs period_rows_def)
  from inst dist bad mem have absent: "fst (rows ?D ! 0) \<notin> set (labels (projr (returned ?X)))"
    by blast
  have "0 < length (rows (projr (returned ?X)))"
    by (simp add: frame_defs period_rows_def floor_numeral_div)
  then have "rows (projr (returned ?X)) ! 0 \<in> set (rows (projr (returned ?X)))"
    by simp
  with inst have "\<exists>y m d. snd (rows (projr (returned ?X)) ! 0) ''period'' = Date y m d
      \<and> 1990 \<le> y \<and> y \<le> 2025"
    by blast
  with ran dist bad absent show ?thesis
    by (intro conjI)
qed

text \<open>
  C4. In the mapping step, row by row: a region code that is a key of the region table is
  replaced by its name and any other region code by \<open>Unknown\<close>; a product code
  that is a key of the product table is replaced by its name and any other product code
  is left as it is. The rows keep their order and labels.
\<close>

theorem map_codes_lookup:
  assumes "k < length (rows d)"
  shows "length (rows (map_codes d)) = length (rows d)
         \<and> fst (rows (map_codes d) ! k) = fst (rows d ! k)
         \<and> (''duoarea'' \<in> set (columns d) \<longrightarrow>
              (\<forall>code name. snd (rows d ! k) ''duoarea'' = Str code \<and> map_of area_map code = Some name
                 \<longrightarrow> snd (rows (map_codes d) ! k) ''duoarea'' = Str name)
              \<and> (\<forall>code. snd (rows d ! k) ''duoarea'' = Str code \<and> map_of area_map code = None
                 \<longrightarrow> snd (rows (map_codes d) ! k) ''duoarea'' = Str ''Unknown''))
         \<and> (''product'' \<in> set (columns d) \<longrightarrow>
              (\<forall>code name. snd (rows d ! k) ''product'' = Str code \<and> map_of product_map code = Some name
                 \<longrightarrow> snd (rows (map_codes d) ! k) ''product'' = Str name)
              \<and> (\<forall>code. snd (rows d ! k) ''product'' = Str code \<and> map_of product_map code = None
                 \<longrightarrow> snd (rows (map_codes d) ! k) ''product'' = Str code))"
  using assms
  by (auto simp: map_codes_def assign_def Let_def map_cell_def fill_cell_def)

text \<open>
  C4, witness: NUS becomes United States, R99 becomes Unknown, EPMR becomes Regular
  Gasoline, EPX stays EPX.
\<close>

theorem map_codes_lookup_witness:
  "0 < length (rows (DataFrame coded_rows))
   \<and> map snd (records (DataFrame coded_rows))
       = [[(''product'', Str ''EPMR''), (''duoarea'', Str ''NUS'')],
          [(''product'', Str ''EPX''), (''duoarea'', Str ''R99'')]]
   \<and> snd (rows (map_codes (DataFrame coded_rows)) ! 0) ''duoarea'' = Str ''United States''
   \<and> snd (rows (map_codes (DataFrame coded_rows)) ! 1) ''duoarea'' = Str ''Unknown''
   \<and> snd (rows (map_codes (DataFrame coded_rows)) ! 0) ''product'' = Str ''Regular Gasoline''
   \<and> snd (rows (map_codes (DataFrame coded_rows)) ! 1) ''product'' = Str ''EPX''"
proof -
  let ?D = "DataFrame coded_rows"
  have len: "0 < length (rows ?D)" "1 < length (rows ?D)"
    by (simp_all add: frame_defs coded_rows_def)
  have recs: "map snd (records ?D)
       = [[(''product'', Str ''EPMR''), (''duoarea'', Str ''NUS'')],
          [(''product'', Str ''EPX''), (''duoarea'', Str ''R99'')]]"
    by (simp add: frame_defs coded_rows_def)
  have cols: "''duoarea'' \<in> set (columns ?D)" "''product'' \<in> set (columns ?D)"
    by (simp_all add: frame_defs coded_rows_def)
  have cells: "snd (rows ?D ! 0) ''duoarea'' = Str ''NUS''" "snd (rows ?D ! 1) ''duoarea'' = Str ''R99''"
    "snd (rows ?D ! 0) ''product'' = Str ''EPMR''" "snd (rows ?D ! 1) ''product'' = Str ''EPX''"
    by (simp_all add: frame_defs coded_rows_def)
  have keys: "map_of area_map ''NUS'' = Some ''United States''" "map_of area_map ''R99'' = None"
    "map_of product_map ''EPMR'' = Some ''Regular Gasoline''" "map_of product_map ''EPX'' = None"
    by (simp_all add: area_map_def product_map_def)
  from map_codes_lookup [OF len(1)] cols cells keys
  have a: "snd (rows (map_codes ?D) ! 0) ''duoarea'' = Str ''United States''"
    and b: "snd (rows (map_codes ?D) ! 0) ''product'' = Str ''Regular Gasoline''"
    by blast+
  from map_codes_lookup [OF len(2)] cols cells keys
  have c: "snd (rows (map_codes ?D) ! 1) ''duoarea'' = Str ''Unknown''"
    and d: "snd (rows (map_codes ?D) ! 1) ''product'' = Str ''EPX''"
    by blast+
  from len(1) recs a c b d show ?thesis
    by (intro conjI)
qed

text \<open>
  C5, as amended. The index labels of the input being distinct, every input row
  contributes at most one output row, and of two input rows that are equal on every
  column at most one is in the output. (Rows that differ in the input may still coincide
  in the output: imputation, formatting and mapping run after the duplicates are
  removed.)
\<close>

theorem clean_keeps_one_of_equal_rows:
  assumes "returned (clean_petroleum_data pd df fs) = Inr out" and "distinct (labels df)"
  shows "distinct (labels out) \<and> set (labels out) \<subseteq> set (labels df)
         \<and> (\<forall>ir\<in>set (rows df). \<forall>jr\<in>set (rows df).
               fst ir \<noteq> fst jr \<and> (\<forall>c\<in>set (columns df). snd ir c = snd jr c)
               \<longrightarrow> \<not> (fst ir \<in> set (labels out) \<and> fst jr \<in> set (labels out)))"
proof -
  from clean_returns [OF assms(1)] obtain w
    where period: "''period'' \<in> set (columns df)"
      and w: "prepare pd (convert_period pd df) = Inr w" and out: "out = map_codes (remove_outliers w)"
    by blast
  from prepare_returns [OF w] obtain df3
    where df3: "without_duplicates pd (convert_period pd df) = Inr df3" and imp: "impute_and_format df3 = Inr w"
    by blast
  let ?kept = "filter (\<lambda>ir. year_between 1990 2025
                               (datetime_cell pd (column df ''period'') (snd ir ''period''))) (rows df)"
  let ?rs = "map (\<lambda>ir. (fst ir, converted_row pd df (snd ir))) ?kept"
  note rows3 = without_duplicates_rows(2) [OF df3 period]
  have "map fst ?rs = map fst ?kept"
    by (simp add: comp_def)
  moreover have "distinct (map fst ?kept)"
    using assms(2) unfolding labels_def by (rule distinct_map_filter)
  ultimately have "distinct (map fst ?rs)"
    by (simp only:)
  then have dist3: "distinct (labels df3)"
    unfolding labels_def rows3 by (rule drop_dups_distinct_labels)
  then have one: "distinct (labels out)"
    by (rule labels_after_dedup(2) [OF imp out])
  have sub3: "set (labels df3) \<subseteq> set (labels df)"
  proof
    fix i
    assume "i \<in> set (labels df3)"
    then obtain a where "(i, a) \<in> set (rows df3)"
      by (auto simp: in_labels)
    from without_duplicates_source [OF df3 period this]
    show "i \<in> set (labels df)"
      by (auto simp: in_labels)
  qed
  with labels_after_dedup(1) [OF imp out] have two: "set (labels out) \<subseteq> set (labels df)"
    by blast
  have three: False
    if ir: "ir \<in> set (rows df)" and jr: "jr \<in> set (rows df)" and ne: "fst ir \<noteq> fst jr"
      and eq: "\<forall>c\<in>set (columns df). snd ir c = snd jr c"
      and both: "fst ir \<in> set (labels out)" "fst jr \<in> set (labels out)"
    for ir jr
  proof -
    have conv: "(fst kr, converted_row pd df (snd kr)) \<in> set (rows df3)"
      if kr: "kr \<in> set (rows df)" and k: "fst kr \<in> set (labels out)" for kr
    proof -
      from k labels_after_dedup(1) [OF imp out] have "fst kr \<in> set (labels df3)"
        by blast
      then obtain a where a: "(fst kr, a) \<in> set (rows df3)"
        by (auto simp: in_labels)
      from without_duplicates_source [OF df3 period this] obtain r
        where r: "(fst kr, r) \<in> set (rows df)" and ar: "a = converted_row pd df r"
        by blast
      from kr have "(fst kr, snd kr) \<in> set (rows df)" by simp
      with assms(2) r have "r = snd kr"
        unfolding labels_def by (rule same_label_same_row)
      with a ar show ?thesis by simp
    qed
    let ?view = "\<lambda>kr :: nat \<times> row. map (snd kr) (columns df)"
    have "distinct (map ?view (rows df3))"
      unfolding rows3 using drop_dups_views [of "columns df" "[]"] by blast
    then have inj: "inj_on ?view (set (rows df3))"
      by (simp add: distinct_map)
    have "map (converted_row pd df (snd ir)) (columns df) = map (converted_row pd df (snd jr)) (columns df)"
      using eq period by (auto simp: converted_row_def)
    then have "?view (fst ir, converted_row pd df (snd ir)) = ?view (fst jr, converted_row pd df (snd jr))"
      by simp
    with inj have "(fst ir, converted_row pd df (snd ir)) = (fst jr, converted_row pd df (snd jr))"
      using conv [OF ir both(1)] conv [OF jr both(2)] by (rule inj_onD)
    with ne show False by simp
  qed
  from one two three show ?thesis by blast
qed

text \<open>C5, witness: of two equal rows (labels 0 and 1) and a third one, one of the two is dropped.\<close>

theorem clean_keeps_one_of_equal_rows_witness:
  "\<not> isl (returned (clean_petroleum_data reference_pandas (DataFrame repeated_rows) Map.empty))
   \<and> distinct (labels (DataFrame repeated_rows))
   \<and> fst (rows (DataFrame repeated_rows) ! 0) \<noteq> fst (rows (DataFrame repeated_rows) ! 1)
   \<and> list_all (\<lambda>c. snd (rows (DataFrame repeated_rows) ! 0) c = snd (rows (DataFrame repeated_rows) ! 1) c)
        (columns (DataFrame repeated_rows))
   \<and> \<not> (fst (rows (DataFrame repeated_rows) ! 0)
           \<in> set (labels (projr (returned
                 (clean_petroleum_data reference_pandas (DataFrame repeated_rows) Map.empty))))
         \<and> fst (rows (DataFrame repeated_rows) ! 1)
           \<in> set (labels (projr (returned
                 (clean_petroleum_data reference_pandas (DataFrame repeated_rows) Map.empty)))))
   \<and> distinct (labels (projr (returned
         (clean_petroleum_data reference_pandas (DataFrame repeated_rows) Map.empty))))"
proof -
  let ?D = "DataFrame repeated_rows"
  let ?X = "clean_petroleum_data reference_pandas ?D Map.empty"
  have ran: "\<not> isl (returned ?X)"
    by (simp add: frame_defs repeated_rows_def floor_numeral_div)
  then have eq: "returned ?X = Inr (projr (returned ?X))"
    by simp
  have dist: "distinct (labels ?D)"
    by (simp add: frame_defs repeated_rows_def)
  note inst = clean_keeps_one_of_equal_rows [OF eq dist]
  have ne: "fst (rows ?D ! 0) \<noteq> fst (rows ?D ! 1)"
    by (simp add: frame_defs repeated_rows_def)
  have same: "list_all (\<lambda>c. snd (rows ?D ! 0) c = snd (rows ?D ! 1) c) (columns ?D)"
    by (simp add: frame_defs repeated_rows_def)
  have mem: "rows ?D ! 0 \<in> set (rows ?D)" "rows ?D ! 1 \<in> set (rows ?D)"
    by (simp_all add: frame_defs repeated_rows_def)
  from same have "\<forall>c\<in>set (columns ?D). snd (rows ?D ! 0) c = snd (rows ?D ! 1) c"
    by (simp add: list_all_iff)
  with inst ne mem
  have one: "\<not> (fst (rows ?D ! 0) \<in> set (labels (projr (returned ?X)))
      \<and> fst (rows ?D ! 1) \<in> set (labels (projr (returned ?X))))"
    by blast
  from inst have "distinct (labels (projr (returned ?X)))"
    by blast
  with ran dist ne same one show ?thesis
    by (intro conjI)
qed

text \<open>
  C5, counterexample to the claim as stated. Two input rows that differ only in the
  value (3 and a text that is no number) are both kept by the removal of duplicates; the
  missing value is then filled with the median 3, and the output holds the same record
  twice.
\<close>

theorem clean_duplicate_records_counterexample:
  "map_sum id records
     (returned (clean_petroleum_data reference_pandas (DataFrame imputed_rows) Map.empty))
   = Inr [(0, [(''period'', Date 2020 1 1), (''value'', Num 3),
               (''product'', Str ''Regular Gasoline''), (''duoarea'', Str ''United States'')]),
          (1, [(''period'', Date 2020 1 1), (''value'', Num 3),
               (''product'', Str ''Regular Gasoline''), (''duoarea'', Str ''United States'')])]
   \<and> records (DataFrame imputed_rows)
       = [(0, [(''period'', Str ''2020''), (''value'', Str ''3''),
               (''product'', Str ''EPMR''), (''duoarea'', Str ''NUS'')]),
          (1, [(''period'', Str ''2020''), (''value'', Str ''abc''),
               (''product'', Str ''EPMR''), (''duoarea'', Str ''NUS'')])]"
  by (simp add: frame_defs imputed_rows_def floor_numeral_div)

text \<open>
  C6, as amended. A table without a period column fails with the \<open>KeyError\<close> of
  that column before anything is done: no file is written and the caller's table is
  untouched. A table with a period column and without a value column fails with the
  \<open>KeyError\<close> of the value column, and no file is written, but only after line 79
  has converted the period column of the caller's table.
\<close>

theorem clean_missing_column:
  "(''period'' \<notin> set (columns df) \<longrightarrow>
      clean_petroleum_data pd df fs
        = \<lparr>returned = Inl (KeyError ''period''), files_after = fs, arg_after = df\<rparr>)
   \<and> (''period'' \<in> set (columns df) \<and> ''value'' \<notin> set (columns df) \<longrightarrow>
      clean_petroleum_data pd df fs
        = \<lparr>returned = Inl (KeyError ''value''), files_after = fs, arg_after = convert_period pd df\<rparr>)"
  by (simp add: clean_petroleum_data_def prepare_def without_duplicates_def Let_def
      filter_rows_def convert_period_def assign_def)

text \<open>C6, witness: the table without columns, and a table with the period column only.\<close>

theorem clean_missing_column_witness:
  "''period'' \<notin> set (columns empty_frame)
   \<and> returned (clean_petroleum_data reference_pandas empty_frame Map.empty) = Inl (KeyError ''period'')
   \<and> ''period'' \<in> set (columns (DataFrame [period_only_row]))
   \<and> ''value'' \<notin> set (columns (DataFrame [period_only_row]))
   \<and> returned (clean_petroleum_data reference_pandas (DataFrame [period_only_row]) Map.empty)
       = Inl (KeyError ''value'')
   \<and> arg_after (clean_petroleum_data reference_pandas (DataFrame [period_only_row]) Map.empty)
       = convert_period reference_pandas (DataFrame [period_only_row])"
proof -
  have a: "''period'' \<notin> set (columns empty_frame)"
    by (simp add: empty_frame_def)
  have b: "''period'' \<in> set (columns (DataFrame [period_only_row]))"
    "''value'' \<notin> set (columns (DataFrame [period_only_row]))"
    by (simp_all add: DataFrame_def period_only_row_def)
  from a clean_missing_column [of empty_frame reference_pandas Map.empty]
  have one: "returned (clean_petroleum_data reference_pandas empty_frame Map.empty) = Inl (KeyError ''period'')"
    by simp
  from b clean_missing_column [of "DataFrame [period_only_row]" reference_pandas Map.empty]
  have two: "returned (clean_petroleum_data reference_pandas (DataFrame [period_only_row]) Map.empty)
       = Inl (KeyError ''value'')"
    and three: "arg_after (clean_petroleum_data reference_pandas (DataFrame [period_only_row]) Map.empty)
       = convert_period reference_pandas (DataFrame [period_only_row])"
    by simp_all
  from a one b two three show ?thesis
    by (intro conjI)
qed

text \<open>
  C6, counterexample to the claim as stated. For a table that has only the period column
  the cleaner fails on the missing value column after the type conversion of the period:
  the caller's table held the text 2025 before the call and holds a date after it.
\<close>

theorem clean_missing_value_counterexample:
  "returned (clean_petroleum_data reference_pandas (DataFrame [period_only_row]) Map.empty)
     = Inl (KeyError ''value'')
   \<and> records (DataFrame [period_only_row]) = [(0, [(''period'', Str ''2025'')])]
   \<and> records (arg_after (clean_petroleum_data reference_pandas (DataFrame [period_only_row]) Map.empty))
     = [(0, [(''period'', Date 2025 1 1)])]"
  by (simp add: frame_defs period_only_row_def)

text \<open>
  C8, the code at an input whose cleaned result is empty. The single row has a price that
  is no number; no median fills it, the quartiles are missing and the filter drops the
  row. The file at the processed-data path then holds the header line: the export before
  the test of emptiness has written it, and touching an existing file does not empty it.
\<close>

theorem clean_empty_result_file:
  "map_sum id records
     (returned (clean_petroleum_data reference_pandas (DataFrame [unpriced_row]) Map.empty)) = Inr []
   \<and> files_after (clean_petroleum_data reference_pandas (DataFrame [unpriced_row]) Map.empty)
        clean_csv_path
     = Some [[Str ''period'', Str ''value'', Str ''product'', Str ''duoarea'']]"
  by (simp add: frame_defs unpriced_row_def)

subsection \<open>Further properties of the cleaner\<close>

text \<open>
  Whenever the cleaner returns, the file at the processed-data path holds the header line
  and the rows of the result; it is never the zero-byte file.
\<close>

lemma clean_persists_result:
  assumes "returned (clean_petroleum_data pd df fs) = Inr out"
  shows "files_after (clean_petroleum_data pd df fs) clean_csv_path = Some (csv_lines out)
         \<and> csv_lines out \<noteq> []"
proof -
  from clean_returns [OF assms] obtain w
    where "''period'' \<in> set (columns df)" and "prepare pd (convert_period pd df) = Inr w"
      and "out = map_codes (remove_outliers w)"
    by blast
  then show ?thesis
    by (simp add: clean_petroleum_data_def Let_def persist_def to_csv_def touch_def csv_lines_def)
qed

text \<open>
  When no row of the input has a period within 1990 to 2025, the cleaner does not return
  an empty table: the most frequent value of the (empty) first non-numeric column is
  undefined, and line 91 raises.
\<close>

lemma clean_nothing_in_range_raises:
  assumes "''period'' \<in> set (columns df)" and "''value'' \<in> set (columns df)"
    and "\<forall>ir\<in>set (rows df).
           \<not> year_between 1990 2025 (datetime_cell pd (column df ''period'') (snd ir ''period''))"
  shows "returned (clean_petroleum_data pd df fs) = Inl (KeyError ''0'')"
proof -
  let ?df2 = "assign ''value'' Number (\<lambda>r. numeric_cell pd (r ''value''))
                (filter_rows (\<lambda>r. year_between 1990 2025 (r ''period'')) (convert_period pd df))"
  let ?df3 = "drop_duplicates ?df2"
  let ?df4 = "fill_numeric ?df3"
  from assms(3) have none: "rows ?df2 = []"
    by (simp add: assign_def filter_rows_def convert_period_def filter_empty_conv)
  then have rows3: "rows ?df3 = []"
    by (simp add: drop_duplicates_def)
  have "cells_kept (\<lambda>c x. False) ?df3 ?df4"
    by (rule cells_kept_fill_numeric) simp
  then have rows4: "rows ?df4 = []"
    using rows3 by (rule cells_kept_no_rows)
  from assms(1,2) have cols: "columns ?df4 = columns df" and ty: "dtypes ?df4 ''period'' = Datetime"
    by (simp_all add: fill_numeric_frame drop_duplicates_def assign_def filter_rows_def convert_period_def)
  from assms(1) cols ty have "''period'' \<in> set (other_cols ?df4)"
    by (simp add: other_cols_def)
  then obtain c cs where cs: "other_cols ?df4 = c # cs"
    by (cases "other_cols ?df4") auto
  from rows4 have "mode0 (column ?df4 c) = None"
    by (simp add: column_def mode0_def)
  with cs have "fill_objects (other_cols ?df4) ?df4 = Inl (KeyError ''0'')"
    by simp
  then have "impute_and_format ?df3 = Inl (KeyError ''0'')"
    by (simp add: impute_and_format_def Let_def)
  moreover from assms(1,2) have "without_duplicates pd (convert_period pd df) = Inr ?df3"
    by (simp add: without_duplicates_def Let_def filter_rows_def convert_period_def assign_def)
  ultimately have "prepare pd (convert_period pd df) = Inl (KeyError ''0'')"
    by (simp add: prepare_def)
  with assms(1) show ?thesis
    by (simp add: clean_petroleum_data_def Let_def)
qed

section \<open>Properties of the pipeline\<close>

text \<open>
  C7, the code at an empty answer of the service (status 200, an empty data array). The
  fetcher returns the table without columns, and the cleaner, handed that table, raises
  the \<open>KeyError\<close> of the period column: the run ends there and no cleaned file is
  written.
\<close>

theorem main_empty_fetch_raises:
  "returned (fetch_petroleum_data reference_pandas
       \<lparr>status_code = 200, body = Some no_rows_body\<rparr> Map.empty)
     = Inr empty_frame
   \<and> returned (main_fetch_clean reference_pandas
         \<lparr>status_code = 200, body = Some no_rows_body\<rparr> Map.empty)
     = Inl (KeyError ''period'')
   \<and> files_after (main_fetch_clean reference_pandas
         \<lparr>status_code = 200, body = Some no_rows_body\<rparr> Map.empty)
        clean_csv_path = None"
  by (simp add: main_fetch_clean_def fetch_petroleum_data_def response_data_def py_get_def
      frame_of_json_def truthy_def no_rows_body_def frame_defs)

section \<open>Properties of the interactive charts\<close>

text \<open>
  C10, as amended. When the scatter figure and the line figure that precede line 76 are
  built, and the period column is there and converts to dates, the call leaves the
  caller's table with a year column of texts (appended last, or overwritten where the
  table had one), the rows, their labels and every other column unchanged, whether or not
  a later figure raises. In every other case the call leaves the caller's table as it was.
\<close>

theorem create_all_charts_year_column:
  "(\<not> isl (px (Scatter ''value'' ''product-name'' ''value'' ''value'') df)
      \<and> \<not> isl (px (Line ''period'' ''value'' ''product-name'') df)
      \<and> ''period'' \<in> set (columns df) \<and> \<not> unparsable pd (column df ''period'')
    \<longrightarrow> columns (arg_after (create_all_charts pd px df fs))
          = (if ''year'' \<in> set (columns df) then columns df else columns df @ [''year''])
        \<and> cells_kept (\<lambda>c x. c \<noteq> ''year'') df (arg_after (create_all_charts pd px df fs))
        \<and> (\<forall>c. c \<noteq> ''year'' \<longrightarrow> dtypes (arg_after (create_all_charts pd px df fs)) c = dtypes df c)
        \<and> (\<forall>ir\<in>set (rows (arg_after (create_all_charts pd px df fs))). \<exists>s. snd ir ''year'' = Str s))
   \<and> (\<not> (\<not> isl (px (Scatter ''value'' ''product-name'' ''value'' ''value'') df)
          \<and> \<not> isl (px (Line ''period'' ''value'' ''product-name'') df)
          \<and> ''period'' \<in> set (columns df) \<and> \<not> unparsable pd (column df ''period''))
    \<longrightarrow> arg_after (create_all_charts pd px df fs) = df)"
  by (auto simp: create_all_charts_arg add_year_frame(1,2,3) dest: add_year_frame(4))

text \<open>
  C10, witness: a table with the columns the charts read gets the year column 2024, 2019.
\<close>

theorem create_all_charts_year_column_witness:
  "\<not> isl (reference_plotly (Scatter ''value'' ''product-name'' ''value'' ''value'') (DataFrame labelled_rows))
   \<and> \<not> isl (reference_plotly (Line ''period'' ''value'' ''product-name'') (DataFrame labelled_rows))
   \<and> ''period'' \<in> set (columns (DataFrame labelled_rows))
   \<and> \<not> unparsable reference_pandas (column (DataFrame labelled_rows) ''period'')
   \<and> columns (arg_after (create_all_charts reference_pandas reference_plotly (DataFrame labelled_rows) Map.empty))
       = [''period'', ''value'', ''product-name'', ''area-name'', ''year'']
   \<and> column (arg_after (create_all_charts reference_pandas reference_plotly (DataFrame labelled_rows) Map.empty))
        ''year'' = [Str ''2024'', Str ''2019'']
   \<and> returned (create_all_charts reference_pandas reference_plotly (DataFrame labelled_rows) Map.empty)
       = Inr ()"
proof -
  let ?D = "DataFrame labelled_rows"
  let ?R = "create_all_charts reference_pandas reference_plotly ?D Map.empty"
  have a: "\<not> isl (reference_plotly (Scatter ''value'' ''product-name'' ''value'' ''value'') ?D)"
    "\<not> isl (reference_plotly (Line ''period'' ''value'' ''product-name'') ?D)"
    "''period'' \<in> set (columns ?D)"
    "\<not> unparsable reference_pandas (column ?D ''period'')"
    by (simp_all add: frame_defs labelled_rows_def chart_defs)
  have cols: "columns ?D = [''period'', ''value'', ''product-name'', ''area-name'']"
    by (simp add: frame_defs labelled_rows_def)
  from a cols create_all_charts_year_column [where px = reference_plotly and df = ?D and pd = reference_pandas and fs = Map.empty]
  have b: "columns (arg_after ?R) = [''period'', ''value'', ''product-name'', ''area-name'', ''year'']"
    by simp
  have c: "column (arg_after ?R) ''year'' = [Str ''2024'', Str ''2019'']"
    by (simp add: frame_defs labelled_rows_def chart_defs show_years)
  have d: "returned ?R = Inr ()"
    by (simp add: frame_defs labelled_rows_def chart_defs show_years)
  from a b c d show ?thesis
    by (intro conjI)
qed

text \<open>
  C10, counterexample to the claim as stated. The cleaned table of the scenario has no
  column \<open>product-name\<close>; the first figure raises, line 76 is not reached, and the
  table has no year column after the call.
\<close>

theorem create_all_charts_year_column_counterexample:
  "records scenario_cleaned
     = [(0, [(''period'', Date 2025 1 1), (''value'', Num (3459 / 1000)),
             (''product'', Str ''Regular Gasoline''), (''duoarea'', Str ''United States'')])]
   \<and> returned (create_all_charts reference_pandas reference_plotly scenario_cleaned Map.empty)
       = Inl (ValueError ''not the name of a column'')
   \<and> columns (arg_after (create_all_charts reference_pandas reference_plotly scenario_cleaned Map.empty))
       = [''period'', ''value'', ''product'', ''duoarea'']"
  by (simp add: scenario_cleaned_def frame_defs scenario_row_def chart_defs)

end
